theory Spec2Isabelle
  imports Complex_Main
begin

section \<open>The convolutional learner of \<^verbatim>\<open>fastai/conv_learner.py\<close>\<close>

text \<open>
  The module builds a classifier head on a truncated pretrained backbone
  (\<^verbatim>\<open>ConvnetBuilder\<close>) and wraps it in a training session (\<^verbatim>\<open>ConvLearner\<close>) that
  can cache the backbone's activations on disk. Every function below follows the
  Python line by line; exceptions are values of \<open>error\<close>, mutation of \<^verbatim>\<open>self\<close> and of
  the files on disk is explicit state passing.
\<close>

subsection \<open>Errors\<close>

datatype error =
    KeyError          \<comment> \<open>\<^verbatim>\<open>model_meta[f]\<close> for an unregistered \<^verbatim>\<open>f\<close>\<close>
  | IndexError        \<comment> \<open>\<^verbatim>\<open>self.ps[i]\<close> out of range\<close>
  | AttributeError    \<comment> \<open>\<^verbatim>\<open>self.fc_data\<close> read before it was ever assigned\<close>
  | OpenError         \<comment> \<open>\<^verbatim>\<open>bcolz.open\<close> on a directory that does not exist\<close>

subsection \<open>The architecture registry\<close>

text \<open>
  The keys of \<^verbatim>\<open>model_meta\<close> are the model creation functions; any other callable is
  \<open>unregistered\<close>.
\<close>

datatype arch =
    resnet18 | resnet34 | resnet50 | resnet101 | vgg16
  | resnext50 | resnext101 | resnext101_64
  | wrn | inceptionresnet_2 | inception_4
  | dn121 | dn161 | dn169 | dn201
  | unregistered string

fun model_meta :: "arch \<Rightarrow> (int \<times> int) option" where
  "model_meta resnet18 = Some (8, 6)"
| "model_meta resnet34 = Some (8, 6)"
| "model_meta resnet50 = Some (8, 6)"
| "model_meta resnet101 = Some (8, 6)"
| "model_meta vgg16 = Some (0, 22)"
| "model_meta resnext50 = Some (8, 6)"
| "model_meta resnext101 = Some (8, 6)"
| "model_meta resnext101_64 = Some (8, 6)"
| "model_meta wrn = Some (8, 6)"
| "model_meta inceptionresnet_2 = Some (- 2, 9)"
| "model_meta inception_4 = Some (- 1, 9)"
| "model_meta dn121 = Some (0, 6)"
| "model_meta dn161 = Some (0, 6)"
| "model_meta dn169 = Some (0, 6)"
| "model_meta dn201 = Some (0, 6)"
| "model_meta (unregistered n) = None"

fun model_features :: "arch \<Rightarrow> int option" where
  "model_features inception_4 = Some 3072"
| "model_features dn121 = Some 1024"
| "model_features dn161 = Some 4416"
| "model_features a = None"

subsection \<open>Layers\<close>

datatype activation = ReLU | Sigmoid | LogSoftmax

text \<open>
  A layer of the backbone is opaque (\<open>BackboneLayer k\<close>, the \<open>k\<close>-th child of the
  pretrained network); the layers this module creates carry their arguments.
\<close>

datatype layer =
    BackboneLayer nat
  | AdaptiveConcatPool2d
  | Flatten
  | BatchNorm1d int          \<comment> \<open>\<^verbatim>\<open>num_features\<close>\<close>
  | Dropout real             \<comment> \<open>\<^verbatim>\<open>p\<close>\<close>
  | Linear int int           \<comment> \<open>\<^verbatim>\<open>in_features\<close>, \<^verbatim>\<open>out_features\<close>\<close>
  | Activation activation

subsection \<open>Collaborators defined in other modules\<close>

type_synonym loader = "nat list"
type_synonym labels = "nat list"

text \<open>An on-disk \<^verbatim>\<open>bcolz.carray\<close>: its row width and its rows.\<close>

record carray =
  width :: int
  rows :: "nat list"

datatype part = x_act | x_act_val | x_act_test

text \<open>
  A cache file name \<^verbatim>\<open>os.path.join(tmp_path, p + f'_{f.__name__}_{xtra_cut}_{sz}.bc')\<close>
  is kept as its five components: the directory, the prefix \<open>p\<close>, the backbone, the
  extra cut and the image size.
\<close>

type_synonym fname = "string \<times> part \<times> arch \<times> int \<times> int"

text \<open>
  The dataset object (\<^verbatim>\<open>ImageClassifierData\<close>), with the attributes this module reads.
  A loader is the list of its examples; \<open>d_test_dl\<close> is \<open>None\<close> for a dataset without a test
  set, and a loader that is there counts as true in \<^verbatim>\<open>if self.data.test_dl\<close>. A row of a
  cached array is named by the example it was computed from.
\<close>

record dataset =
  d_path :: string
  d_sz :: int
  d_c :: int
  d_is_multi :: bool
  d_is_reg :: bool
  d_bs :: int
  d_classes :: "string list"
  d_trn_y :: labels
  d_val_y :: labels
  d_fix_dl :: loader
  d_val_dl :: loader
  d_test_dl :: "loader option"

text \<open>
  Functions of the framework that this module calls and that are defined elsewhere are
  parameters of the model:
  \<^item> \<open>cut_model ext f cut\<close> is \<^verbatim>\<open>cut_model(f(True), cut)\<close>, the layers of the pretrained
    backbone \<open>f\<close> truncated at \<open>cut\<close>;
  \<^item> \<open>num_features ext layers\<close> is \<^verbatim>\<open>num_features(layers)\<close>, the inferred feature count;
  \<^item> \<open>predict_to_bcolz ext m dl arr\<close> is the content of the array \<open>arr\<close> after
    \<^verbatim>\<open>predict_to_bcolz(m, dl, arr)\<close> ran the model \<open>m\<close> over the loader \<open>dl\<close>;
  \<^item> \<open>from_arrays ext path trn val bs classes test\<close> is the dataset that
    \<^verbatim>\<open>ImageClassifierData.from_arrays\<close> wraps around the cached arrays.
\<close>

record ext =
  cut_model :: "arch \<Rightarrow> int \<Rightarrow> layer list"
  num_features :: "layer list \<Rightarrow> int"
  predict_to_bcolz :: "layer list \<Rightarrow> loader \<Rightarrow> carray \<Rightarrow> carray"
  from_arrays :: "string \<Rightarrow> fname \<times> labels \<Rightarrow> fname \<times> labels \<Rightarrow> int
                    \<Rightarrow> string list \<Rightarrow> fname option \<Rightarrow> dataset"

subsection \<open>\<^verbatim>\<open>ConvnetBuilder\<close>\<close>

text \<open>
  The \<^verbatim>\<open>ps\<close> argument is \<^verbatim>\<open>None\<close>, a number or a list of numbers; \<^verbatim>\<open>xtra_fc\<close> is
  \<^verbatim>\<open>None\<close> or a list of integers.
\<close>

datatype ps_arg = PsNone | PsInt int | PsFloat real | PsList "real list"

text \<open>The value of \<^verbatim>\<open>self.ps\<close> between lines 30 and 41: a number or a list.\<close>

datatype ps_val = Scalar real | Rates "real list"

record builder =
  b_f :: arch
  b_c :: int
  b_is_multi :: bool
  b_is_reg :: bool
  b_xtra_cut :: int
  b_ps :: "real list"
  b_xtra_fc :: "int list"
  b_lr_cut :: int
  b_nf :: int
  top_model :: "layer list"
  b_n_fc :: nat
  fc_model :: "layer list"
  model :: "layer list"

text \<open>\<^verbatim>\<open>ps or [0.25,0.5]\<close>: \<^verbatim>\<open>None\<close>, a zero number and the empty list are falsy.\<close>

fun ps_or_default :: "ps_arg \<Rightarrow> ps_val" where
  "ps_or_default PsNone = Rates [1/4, 1/2]"
| "ps_or_default (PsInt n) = (if n = 0 then Rates [1/4, 1/2] else Scalar (of_int n))"
| "ps_or_default (PsFloat x) = (if x = 0 then Rates [1/4, 1/2] else Scalar x)"
| "ps_or_default (PsList xs) = (if xs = [] then Rates [1/4, 1/2] else Rates xs)"

text \<open>\<^verbatim>\<open>xtra_fc or [512]\<close>.\<close>

fun xtra_fc_or_default :: "int list option \<Rightarrow> int list" where
  "xtra_fc_or_default None = [512]"
| "xtra_fc_or_default (Some xs) = (if xs = [] then [512] else xs)"

text \<open>\<^verbatim>\<open>if not isinstance(self.ps, list): self.ps = [self.ps]*n_fc\<close>.\<close>

fun broadcast_ps :: "ps_val \<Rightarrow> nat \<Rightarrow> real list" where
  "broadcast_ps (Scalar x) n = replicate n x"
| "broadcast_ps (Rates xs) n = xs"

definition create_fc_layer :: "int \<Rightarrow> int \<Rightarrow> real \<Rightarrow> activation option \<Rightarrow> layer list" where
  "create_fc_layer ni nf p actn =
     (let res = [BatchNorm1d ni];
          res = (if p \<noteq> 0 then res @ [Dropout p] else res);
          res = res @ [Linear ni nf];
          res = (case actn of Some a \<Rightarrow> res @ [Activation a] | None \<Rightarrow> res)
      in res)"

text \<open>
  The loop of \<^verbatim>\<open>get_fc_layers\<close> over \<^verbatim>\<open>enumerate(self.xtra_fc)\<close>, with the index \<open>i\<close>,
  the running input width \<open>ni\<close> and the layers collected so far. It returns the final
  \<open>ni\<close> with the layers; \<^verbatim>\<open>self.ps[i]\<close> raises when the list of rates is too short.
\<close>

fun fc_loop :: "real list \<Rightarrow> nat \<Rightarrow> int \<Rightarrow> int list \<Rightarrow> layer list \<Rightarrow> error + int \<times> layer list" where
  "fc_loop rates i ni [] res = Inr (ni, res)"
| "fc_loop rates i ni (nf # rest) res =
     (if i < length rates
      then fc_loop rates (Suc i) nf rest (res @ create_fc_layer ni nf (rates ! i) (Some ReLU))
      else Inl IndexError)"

definition get_fc_layers_of ::
  "int \<Rightarrow> int list \<Rightarrow> real list \<Rightarrow> int \<Rightarrow> bool \<Rightarrow> bool \<Rightarrow> error + layer list" where
  "get_fc_layers_of nf0 xfc rates c multi reg =
     (case fc_loop rates 0 nf0 xfc [] of
        Inl e \<Rightarrow> Inl e
      | Inr (ni, res) \<Rightarrow>
          (let final_actn = (if multi then Some Sigmoid else Some LogSoftmax);
               final_actn = (if reg then None else final_actn)
           in if rates = [] then Inl IndexError
              else Inr (res @ create_fc_layer ni c (last rates) final_actn)))"

text \<open>\<^verbatim>\<open>get_fc_layers\<close> reads \<^verbatim>\<open>nf\<close>, \<^verbatim>\<open>xtra_fc\<close>, \<^verbatim>\<open>ps\<close>, \<^verbatim>\<open>c\<close> and the task flags of \<^verbatim>\<open>self\<close>.\<close>

definition get_fc_layers :: "builder \<Rightarrow> error + layer list" where
  "get_fc_layers b =
     get_fc_layers_of (b_nf b) (b_xtra_fc b) (b_ps b) (b_c b) (b_is_multi b) (b_is_reg b)"

text \<open>
  \<^verbatim>\<open>ConvnetBuilder.__init__\<close>. Moving the head to the GPU and initialising its weights
  (\<^verbatim>\<open>to_gpu\<close>, \<^verbatim>\<open>apply_init\<close>) do not change the layer sequence. \<^verbatim>\<open>get_fc_layers\<close> runs on
  \<^verbatim>\<open>self\<close> as it is at line 43, where \<^verbatim>\<open>n_fc\<close>, \<^verbatim>\<open>fc_model\<close> and \<^verbatim>\<open>model\<close> are not yet set.
\<close>

definition ConvnetBuilder_init ::
  "ext \<Rightarrow> arch \<Rightarrow> int \<Rightarrow> bool \<Rightarrow> bool \<Rightarrow> ps_arg \<Rightarrow> int list option \<Rightarrow> int \<Rightarrow> error + builder" where
  "ConvnetBuilder_init e f c multi reg ps xtra_fc xtra_cut =
     (let ps1 = ps_or_default ps;
          xfc = xtra_fc_or_default xtra_fc
      in case model_meta f of
           None \<Rightarrow> Inl KeyError
         | Some (cut0, lr_cut) \<Rightarrow>
             (let cut = cut0 - xtra_cut;
                  layers = cut_model e f cut;
                  nf = (case model_features f of
                          Some n \<Rightarrow> n
                        | None \<Rightarrow> num_features e layers * 2);
                  layers = layers @ [AdaptiveConcatPool2d, Flatten];
                  n_fc = length xfc + 1;
                  ps2 = broadcast_ps ps1 n_fc
              in case get_fc_layers_of nf xfc ps2 c multi reg of
                   Inl err \<Rightarrow> Inl err
                 | Inr fc_layers \<Rightarrow>
                     Inr \<lparr> b_f = f, b_c = c, b_is_multi = multi, b_is_reg = reg,
                           b_xtra_cut = xtra_cut, b_ps = ps2, b_xtra_fc = xfc,
                           b_lr_cut = lr_cut, b_nf = nf, top_model = layers,
                           b_n_fc = length fc_layers, fc_model = fc_layers,
                           model = layers @ fc_layers \<rparr>))"


subsection \<open>Layer groups\<close>

text \<open>Python's normalisation of a slice bound \<open>i\<close> on a sequence of length \<open>n\<close>.\<close>

definition py_bound :: "nat \<Rightarrow> int \<Rightarrow> nat" where
  "py_bound n i = (if i < 0 then nat (max 0 (int n + i)) else min (nat i) n)"

text \<open>\<^verbatim>\<open>seq[lo:hi]\<close> and \<^verbatim>\<open>seq[lo:]\<close>.\<close>

definition py_slice :: "'a list \<Rightarrow> int \<Rightarrow> int \<Rightarrow> 'a list" where
  "py_slice xs lo hi =
     (let a = py_bound (length xs) lo; b = py_bound (length xs) hi
      in take (b - a) (drop a xs))"

definition py_slice_from :: "'a list \<Rightarrow> int \<Rightarrow> 'a list" where
  "py_slice_from xs lo = drop (py_bound (length xs) lo) xs"

text \<open>
  Modelled from the spec: \<^verbatim>\<open>split_by_idxs\<close> of the core module is not part of this file.
  The spec has the layer groups ``split at the architecture's configured index'': the
  sequence is cut into consecutive pieces \<^verbatim>\<open>seq[last:idx]\<close>, one for each index, and the
  rest \<^verbatim>\<open>seq[last:]\<close>, where \<open>last\<close> starts at 0 and is the previous index afterwards.
\<close>

fun split_by_idxs_from :: "'a list \<Rightarrow> int \<Rightarrow> int list \<Rightarrow> 'a list list" where
  "split_by_idxs_from seq last_idx [] = [py_slice_from seq last_idx]"
| "split_by_idxs_from seq last_idx (idx # idxs) =
     py_slice seq last_idx idx # split_by_idxs_from seq idx idxs"

definition split_by_idxs :: "'a list \<Rightarrow> int list \<Rightarrow> 'a list list" where
  "split_by_idxs seq idxs = split_by_idxs_from seq 0 idxs"

text \<open>
  \<^verbatim>\<open>ConvnetBuilder.get_layer_groups\<close>, on the children of \<^verbatim>\<open>fc_model\<close> and of \<^verbatim>\<open>model\<close>
  (\<^verbatim>\<open>children\<close> of a sequential model is the list of its layers).
\<close>

definition get_layer_groups_on :: "'a list \<Rightarrow> 'a list \<Rightarrow> int \<Rightarrow> nat \<Rightarrow> bool \<Rightarrow> 'a list list" where
  "get_layer_groups_on fc_children model_children lr_cut n_fc do_fc =
     (let (m, idxs) = (if do_fc then (fc_children, [])
                       else (model_children, [lr_cut, - int n_fc]));
          lgs = split_by_idxs m idxs
      in lgs)"


text \<open>
  Two layers of a model can be equal as values (two \<open>Activation ReLU\<close>) and still be
  different objects. A layer object is identified by its position in the full model
  \<^verbatim>\<open>layers+fc_layers\<close>: the head's objects are the last \<open>length fc_model\<close> positions.
  \<open>get_layer_group_ids\<close> is \<^verbatim>\<open>get_layer_groups\<close> on these positions.
\<close>

definition model_ids :: "builder \<Rightarrow> nat list" where
  "model_ids b = [0..<length (model b)]"

definition fc_model_ids :: "builder \<Rightarrow> nat list" where
  "fc_model_ids b = [length (model b) - length (fc_model b)..<length (model b)]"

definition get_layer_group_ids :: "builder \<Rightarrow> bool \<Rightarrow> nat list list" where
  "get_layer_group_ids b do_fc =
     get_layer_groups_on (fc_model_ids b) (model_ids b) (b_lr_cut b) (b_n_fc b) do_fc"

subsection \<open>\<^verbatim>\<open>ConvLearner\<close>\<close>

datatype loss = binary_cross_entropy | nll_loss | l1_loss

datatype metric = accuracy | accuracy_multi | other_metric string

text \<open>
  The learner with the part of the world it changes: which layer objects are trainable,
  the cache files on disk, and the log of the passes of the backbone over a loader
  (one entry for each call of \<^verbatim>\<open>predict_to_bcolz\<close>: the loader and the array written).
  \<open>data_attr\<close> is the attribute \<^verbatim>\<open>data_\<close>;
  \<open>activations\<close> holds the three open arrays as the names of their directories;
  \<open>fc_data\<close> is \<open>None\<close> until \<^verbatim>\<open>save_fc1\<close> assigns the attribute.
\<close>

record learner =
  precompute :: bool
  data_attr :: dataset
  models :: builder
  metrics :: "metric list option"
  crit :: "loss option"
  tmp_path :: string
  fc_data :: "dataset option"
  activations :: "fname list"
  trainable :: "nat \<Rightarrow> bool"
  disk :: "fname \<rightharpoonup> carray"
  runs :: "(loader \<times> fname) list"

definition bind_err :: "error + 'a \<Rightarrow> ('a \<Rightarrow> error + 'b) \<Rightarrow> error + 'b" where
  "bind_err r k = (case r of Inl err \<Rightarrow> Inl err | Inr x \<Rightarrow> k x)"

text \<open>The properties \<^verbatim>\<open>model\<close> and \<^verbatim>\<open>data\<close>.\<close>

definition model_prop :: "learner \<Rightarrow> layer list" where
  "model_prop s = (if precompute s then fc_model (models s) else model (models s))"

definition data_prop :: "learner \<Rightarrow> error + dataset" where
  "data_prop s =
     (if precompute s
      then (case fc_data s of None \<Rightarrow> Inl AttributeError | Some d \<Rightarrow> Inr d)
      else Inr (data_attr s))"



text \<open>
  Modelled from the spec: the base class \<^verbatim>\<open>Learner\<close> is not part of this file. Its
  constructor ``wraps a dataset handle and a built model'' and keeps the metrics
  ``supplied'' (\<open>None\<close> when none are); the cache lives ``under a temporary-path
  directory associated with the dataset''. The first argument is the value that
  \<^verbatim>\<open>self.precompute\<close> has when the constructor is called; the last two are the state of
  the world at that time.
\<close>

definition Learner_init ::
  "bool \<Rightarrow> dataset \<Rightarrow> builder \<Rightarrow> metric list option \<Rightarrow> string
     \<Rightarrow> (nat \<Rightarrow> bool) \<Rightarrow> (fname \<rightharpoonup> carray) \<Rightarrow> learner" where
  "Learner_init pre data0 models0 metrics0 tmp_name trainable0 disk0 =
     \<lparr> precompute = pre, data_attr = data0, models = models0, metrics = metrics0,
       crit = None, tmp_path = d_path data0 @ ''/'' @ tmp_name, fc_data = None,
       activations = [], trainable = trainable0, disk = disk0, runs = [] \<rparr>"

text \<open>Modelled from the spec: \<^verbatim>\<open>Learner.set_data\<close> of the base class stores the dataset.\<close>

definition Learner_set_data :: "learner \<Rightarrow> dataset \<Rightarrow> learner" where
  "Learner_set_data s data0 = s\<lparr>data_attr := data0\<rparr>"

text \<open>
  Modelled from the spec: \<^verbatim>\<open>Learner.freeze_to\<close> of the base class is not part of this
  file. The spec has the learner manage ``frozen/unfrozen layer groups'': every layer of
  every layer group is made untrainable, then the layers of the groups from index \<open>n\<close>
  on (\<^verbatim>\<open>c[n:]\<close>) are made trainable. The layer groups are those of
  \<^verbatim>\<open>ConvLearner.get_layer_groups\<close>, as objects.
\<close>

definition freeze_to :: "int \<Rightarrow> learner \<Rightarrow> learner" where
  "freeze_to n s =
     (let c = get_layer_group_ids (models s) (precompute s);
          tr = (\<lambda>i. if i \<in> set (concat c) then False else trainable s i);
          tr = (\<lambda>i. if i \<in> set (concat (py_slice_from c n)) then True else tr i)
      in s\<lparr>trainable := tr\<rparr>)"

definition freeze :: "learner \<Rightarrow> learner" where
  "freeze s = freeze_to (- 1) s"

text \<open>\<^verbatim>\<open>create_empty_bcolz(n, name)\<close> writes an array of no rows (\<^verbatim>\<open>mode='w'\<close>).\<close>

definition create_empty_bcolz :: "int \<Rightarrow> fname \<Rightarrow> (fname \<rightharpoonup> carray) \<Rightarrow> (fname \<rightharpoonup> carray)" where
  "create_empty_bcolz n name dk = dk(name \<mapsto> \<lparr> width = n, rows = [] \<rparr>)"

text \<open>The three names that \<^verbatim>\<open>get_activations\<close> builds for the dataset \<open>d\<close>.\<close>

definition cache_names :: "learner \<Rightarrow> dataset \<Rightarrow> fname list" where
  "cache_names s d =
     map (\<lambda>p. (tmp_path s, p, b_f (models s), b_xtra_cut (models s), d_sz d))
       [x_act, x_act_val, x_act_test]"

text \<open>
  \<^verbatim>\<open>get_activations\<close>. \<^verbatim>\<open>bcolz.open\<close> raises on a name that is not on disk; it is called on
  the names in order and nothing has been assigned when it raises.
\<close>

definition get_activations :: "learner \<Rightarrow> bool \<Rightarrow> error + learner" where
  "get_activations s force =
     bind_err (data_prop s) (\<lambda>d.
       let names = cache_names s d
       in if names ! 0 \<in> dom (disk s) \<and> \<not> force
          then (if \<forall>p \<in> set names. p \<in> dom (disk s)
                then Inr (s\<lparr>activations := names\<rparr>)
                else Inl OpenError)
          else Inr (s\<lparr>activations := names,
                      disk := fold (create_empty_bcolz (b_nf (models s))) names (disk s)\<rparr>))"

text \<open>The array behind an open handle; a handle is open only on a name that is on disk.\<close>

definition the_array :: "(fname \<rightharpoonup> carray) \<Rightarrow> fname \<Rightarrow> carray" where
  "the_array dk name = (case dk name of Some a \<Rightarrow> a | None \<Rightarrow> \<lparr> width = 0, rows = [] \<rparr>)"

text \<open>One call \<^verbatim>\<open>predict_to_bcolz(m, dl, arr)\<close>: the array changes on disk, the pass is logged.\<close>

definition run_predict :: "ext \<Rightarrow> layer list \<Rightarrow> loader \<Rightarrow> fname \<Rightarrow> learner \<Rightarrow> learner" where
  "run_predict e m dl name s =
     s\<lparr>disk := (disk s)(name \<mapsto> predict_to_bcolz e m dl (the_array (disk s) name)),
       runs := runs s @ [(dl, name)]\<rparr>"

definition save_fc1 :: "ext \<Rightarrow> learner \<Rightarrow> error + learner" where
  "save_fc1 e s0 =
     bind_err (get_activations s0 False) (\<lambda>s.
     bind_err (data_prop s) (\<lambda>d.
       let act = activations s ! 0; val_act = activations s ! 1; test_act = activations s ! 2;
           s = (if length (rows (the_array (disk s) act)) = 0
                then (let m = top_model (models s);
                          s = run_predict e m (d_fix_dl d) act s;
                          s = run_predict e m (d_val_dl d) val_act s;
                          s = (case d_test_dl d of
                                 Some dl \<Rightarrow> run_predict e m dl test_act s
                               | None \<Rightarrow> s)
                      in s)
                else s)
       in Inr (s\<lparr>fc_data := Some (from_arrays e (d_path d) (act, d_trn_y d)
                                     (val_act, d_val_y d) (d_bs d) (d_classes d)
                                     (case d_test_dl d of Some dl \<Rightarrow> Some test_act
                                      | None \<Rightarrow> None))\<rparr>)))"

text \<open>
  \<^verbatim>\<open>ConvLearner.__init__\<close>; \<open>metrics0\<close> and \<open>tmp_name\<close> are the keyword arguments passed on
  to the base class.
\<close>

definition ConvLearner_init ::
  "ext \<Rightarrow> dataset \<Rightarrow> builder \<Rightarrow> bool \<Rightarrow> metric list option \<Rightarrow> string
     \<Rightarrow> (nat \<Rightarrow> bool) \<Rightarrow> (fname \<rightharpoonup> carray) \<Rightarrow> error + learner" where
  "ConvLearner_init e data0 models0 precompute0 metrics0 tmp_name trainable0 disk0 =
     (let s = Learner_init False data0 models0 metrics0 tmp_name trainable0 disk0;
          s = s\<lparr>crit := Some (if d_is_multi data0 then binary_cross_entropy else nll_loss)\<rparr>
      in bind_err
           (if d_is_reg data0 then Inr (s\<lparr>crit := Some l1_loss\<rparr>)
            else if metrics s = None
            then bind_err (data_prop s) (\<lambda>d.
                   Inr (s\<lparr>metrics := Some (if d_is_multi d then [accuracy_multi]
                                             else [accuracy])\<rparr>))
            else Inr s)
           (\<lambda>s. bind_err (if precompute0 then save_fc1 e s else Inr s)
           (\<lambda>s. let s = freeze s
                 in Inr (s\<lparr>precompute := precompute0\<rparr>))))"

text \<open>\<^verbatim>\<open>ConvLearner.pretrained\<close>.\<close>

definition pretrained ::
  "ext \<Rightarrow> arch \<Rightarrow> dataset \<Rightarrow> ps_arg \<Rightarrow> int list option \<Rightarrow> int \<Rightarrow> bool
     \<Rightarrow> metric list option \<Rightarrow> string \<Rightarrow> (nat \<Rightarrow> bool) \<Rightarrow> (fname \<rightharpoonup> carray)
     \<Rightarrow> error + learner" where
  "pretrained e f data0 ps xtra_fc xtra_cut precompute0 metrics0 tmp_name trainable0 disk0 =
     bind_err
       (ConvnetBuilder_init e f (d_c data0) (d_is_multi data0) (d_is_reg data0) ps xtra_fc xtra_cut)
       (\<lambda>models0. ConvLearner_init e data0 models0 precompute0 metrics0 tmp_name
                    trainable0 disk0)"

definition set_data :: "ext \<Rightarrow> learner \<Rightarrow> dataset \<Rightarrow> error + learner" where
  "set_data e s0 data0 =
     (let s = Learner_set_data s0 data0
      in bind_err (save_fc1 e s) (\<lambda>s. Inr (freeze s)))"

subsection \<open>The head as the spec describes it\<close>

text \<open>
  A head block in the spec's words: batch-norm, optional dropout, linear, optional
  activation.
\<close>

definition head_block :: "int \<Rightarrow> int \<Rightarrow> real \<Rightarrow> activation option \<Rightarrow> layer list" where
  "head_block ni nf p actn =
     [BatchNorm1d ni] @ (if p = 0 then [] else [Dropout p]) @ [Linear ni nf]
       @ (case actn of None \<Rightarrow> [] | Some a \<Rightarrow> [Activation a])"

text \<open>Sigmoid for multi-label, log-softmax for plain classification, none for regression.\<close>

definition final_activation :: "bool \<Rightarrow> bool \<Rightarrow> activation option" where
  "final_activation multi reg =
     (if reg then None else if multi then Some Sigmoid else Some LogSoftmax)"

text \<open>
  The hidden blocks: block \<open>k\<close> maps the width before it to \<open>xfc ! k\<close>, with dropout rate
  \<open>rates ! (i + k)\<close> and ReLU.
\<close>

definition hidden_blocks :: "int \<Rightarrow> int list \<Rightarrow> real list \<Rightarrow> nat \<Rightarrow> layer list" where
  "hidden_blocks ni xfc rates i =
     concat (map (\<lambda>k. head_block ((ni # xfc) ! k) (xfc ! k) (rates ! (i + k)) (Some ReLU))
               [0..<length xfc])"

text \<open>The falsy values of the two optional arguments.\<close>

definition falsy_ps :: "ps_arg \<Rightarrow> bool" where
  "falsy_ps ps = (ps = PsNone \<or> ps = PsInt 0 \<or> ps = PsFloat 0 \<or> ps = PsList [])"

definition falsy_xtra_fc :: "int list option \<Rightarrow> bool" where
  "falsy_xtra_fc x = (x = None \<or> x = Some [])"

text \<open>
  What \<^verbatim>\<open>ConvnetBuilder.__init__\<close> establishes between the fields of a builder: the full
  model is the truncated backbone with its adapter followed by the head, \<^verbatim>\<open>n_fc\<close> counts
  the layers of the head, and the head is not empty.
\<close>

definition built :: "builder \<Rightarrow> bool" where
  "built b = (model b = top_model b @ fc_model b \<and> b_n_fc b = length (fc_model b)
              \<and> fc_model b \<noteq> [])"

subsection \<open>Concrete inputs\<close>

text \<open>
  A backbone of ten children that \<^verbatim>\<open>cut_model\<close> truncates to its first \<open>cut\<close> children,
  an inferred feature count of 512, a \<^verbatim>\<open>predict_to_bcolz\<close> that leaves one row for each
  example of the loader in the array, and a \<^verbatim>\<open>from_arrays\<close> that keeps the labels it is given.
\<close>

definition example_ext :: ext where
  "example_ext =
     \<lparr> cut_model = (\<lambda>f cut. take (nat cut) (map BackboneLayer [0, 1, 2, 3, 4, 5, 6, 7, 8, 9])),
       num_features = (\<lambda>layers. 512),
       predict_to_bcolz = (\<lambda>m dl arr. arr\<lparr>rows := dl\<rparr>),
       from_arrays = (\<lambda>path trn val bs classes test.
          \<lparr> d_path = path, d_sz = 0, d_c = int (length classes), d_is_multi = False,
            d_is_reg = False, d_bs = bs, d_classes = classes, d_trn_y = snd trn,
            d_val_y = snd val, d_fix_dl = [], d_val_dl = [], d_test_dl = None \<rparr>) \<rparr>"

definition example_builder :: builder where
  "example_builder =
     \<lparr> b_f = resnet34, b_c = 10, b_is_multi = False, b_is_reg = False, b_xtra_cut = 0,
       b_ps = [1/4, 1/2], b_xtra_fc = [512], b_lr_cut = 6, b_nf = 1024,
       top_model = [BackboneLayer 0, BackboneLayer 1, BackboneLayer 2, BackboneLayer 3,
                    BackboneLayer 4, BackboneLayer 5, BackboneLayer 6, BackboneLayer 7,
                    AdaptiveConcatPool2d, Flatten],
       b_n_fc = 8,
       fc_model = [BatchNorm1d 1024, Dropout (1/4), Linear 1024 512, Activation ReLU,
                   BatchNorm1d 512, Dropout (1/2), Linear 512 10, Activation LogSoftmax],
       model = [BackboneLayer 0, BackboneLayer 1, BackboneLayer 2, BackboneLayer 3,
                BackboneLayer 4, BackboneLayer 5, BackboneLayer 6, BackboneLayer 7,
                AdaptiveConcatPool2d, Flatten,
                BatchNorm1d 1024, Dropout (1/4), Linear 1024 512, Activation ReLU,
                BatchNorm1d 512, Dropout (1/2), Linear 512 10, Activation LogSoftmax] \<rparr>"

definition example_data :: dataset where
  "example_data =
     \<lparr> d_path = ''data'', d_sz = 224, d_c = 10, d_is_multi = False, d_is_reg = False,
       d_bs = 64, d_classes = [''cat'', ''dog''], d_trn_y = [0, 1], d_val_y = [1],
       d_fix_dl = [1, 2], d_val_dl = [3], d_test_dl = None \<rparr>"



text \<open>A learner on the example data, as the base class leaves it.\<close>

definition example_learner :: learner where
  "example_learner =
     Learner_init False example_data example_builder None ''tmp'' (\<lambda>i. True) Map.empty"

subsection \<open>The constructor up to line 84\<close>

text \<open>
  The learner at line 85 of \<^verbatim>\<open>ConvLearner.__init__\<close>, before any caching: the base class
  has run with \<^verbatim>\<open>precompute\<close> unset, the loss is chosen, and the default metric is
  installed where the code installs one.
\<close>

definition init_until_caching ::
  "dataset \<Rightarrow> builder \<Rightarrow> metric list option \<Rightarrow> string
     \<Rightarrow> (nat \<Rightarrow> bool) \<Rightarrow> (fname \<rightharpoonup> carray) \<Rightarrow> learner" where
  "init_until_caching data0 models0 metrics0 tmp_name trainable0 disk0 =
     (Learner_init False data0 models0 metrics0 tmp_name trainable0 disk0)
       \<lparr> metrics :=
           (if d_is_reg data0 then metrics0
            else case metrics0 of
                   None \<Rightarrow> Some (if d_is_multi data0 then [accuracy_multi] else [accuracy])
                 | Some ms \<Rightarrow> Some ms),
         crit :=
           Some (if d_is_reg data0 then l1_loss
                 else if d_is_multi data0 then binary_cross_entropy else nll_loss) \<rparr>"

text \<open>A regression dataset.\<close>

definition example_reg_data :: dataset where
  "example_reg_data = example_data\<lparr>d_is_reg := True\<rparr>"

text \<open>Every layer trainable, and a disk without cache files.\<close>

definition all_trainable :: "nat \<Rightarrow> bool" where
  "all_trainable i = True"

definition empty_disk :: "fname \<rightharpoonup> carray" where
  "empty_disk name = None"

subsection \<open>The caching steps of \<^verbatim>\<open>save_fc1\<close> by name\<close>

text \<open>
  Lines 125 to 128: the truncated backbone runs over the training loader, the validation
  loader and, when there is one, the test loader, into the three open arrays.
\<close>

definition run_backbone :: "ext \<Rightarrow> dataset \<Rightarrow> learner \<Rightarrow> learner" where
  "run_backbone e d s =
     (let act = activations s ! 0; val_act = activations s ! 1; test_act = activations s ! 2;
          m = top_model (models s);
          s = run_predict e m (d_fix_dl d) act s;
          s = run_predict e m (d_val_dl d) val_act s;
          s = (case d_test_dl d of
                 Some dl \<Rightarrow> run_predict e m dl test_act s
               | None \<Rightarrow> s)
      in s)"

text \<open>Lines 130 to 132: the dataset wrapped around the arrays \<open>names\<close>.\<close>

definition cached_dataset :: "ext \<Rightarrow> dataset \<Rightarrow> fname list \<Rightarrow> dataset" where
  "cached_dataset e d names =
     from_arrays e (d_path d) (names ! 0, d_trn_y d) (names ! 1, d_val_y d) (d_bs d)
       (d_classes d) (case d_test_dl d of Some dl \<Rightarrow> Some (names ! 2) | None \<Rightarrow> None)"

text \<open>The passes that one recomputation for the dataset \<open>d\<close> adds to the log.\<close>

definition passes :: "dataset \<Rightarrow> fname list \<Rightarrow> (loader \<times> fname) list" where
  "passes d names =
     [(d_fix_dl d, names ! 0), (d_val_dl d, names ! 1)]
     @ (case d_test_dl d of Some dl \<Rightarrow> [(dl, names ! 2)] | None \<Rightarrow> [])"

subsection \<open>Concrete cache states\<close>

text \<open>The builder for regression on \<^verbatim>\<open>resnet34\<close>: the final block has no activation.\<close>

definition example_reg_builder :: builder where
  "example_reg_builder =
     \<lparr> b_f = resnet34, b_c = 10, b_is_multi = False, b_is_reg = True, b_xtra_cut = 0,
       b_ps = [1/4, 1/2], b_xtra_fc = [512], b_lr_cut = 6, b_nf = 1024,
       top_model = [BackboneLayer 0, BackboneLayer 1, BackboneLayer 2, BackboneLayer 3,
                    BackboneLayer 4, BackboneLayer 5, BackboneLayer 6, BackboneLayer 7,
                    AdaptiveConcatPool2d, Flatten],
       b_n_fc = 7,
       fc_model = [BatchNorm1d 1024, Dropout (1/4), Linear 1024 512, Activation ReLU,
                   BatchNorm1d 512, Dropout (1/2), Linear 512 10],
       model = [BackboneLayer 0, BackboneLayer 1, BackboneLayer 2, BackboneLayer 3,
                BackboneLayer 4, BackboneLayer 5, BackboneLayer 6, BackboneLayer 7,
                AdaptiveConcatPool2d, Flatten,
                BatchNorm1d 1024, Dropout (1/4), Linear 1024 512, Activation ReLU,
                BatchNorm1d 512, Dropout (1/2), Linear 512 10] \<rparr>"

text \<open>The three cache files of the example learner, for image size 224.\<close>

definition act_file :: "part \<Rightarrow> fname" where
  "act_file p = (''data/tmp'', p, resnet34, 0, 224)"

text \<open>
  A disk on which the cache of the example data is complete (two training rows, one
  validation row, no test row), and one on which the training array exists without rows.
\<close>

definition cached_disk :: "fname \<rightharpoonup> carray" where
  "cached_disk =
     [act_file x_act \<mapsto> \<lparr> width = 1024, rows = [1, 2] \<rparr>,
      act_file x_act_val \<mapsto> \<lparr> width = 1024, rows = [3] \<rparr>,
      act_file x_act_test \<mapsto> \<lparr> width = 1024, rows = [] \<rparr>]"

definition empty_primary_disk :: "fname \<rightharpoonup> carray" where
  "empty_primary_disk =
     [act_file x_act \<mapsto> \<lparr> width = 1024, rows = [] \<rparr>,
      act_file x_act_val \<mapsto> \<lparr> width = 1024, rows = [3] \<rparr>,
      act_file x_act_test \<mapsto> \<lparr> width = 1024, rows = [] \<rparr>]"

definition cached_learner :: learner where
  "cached_learner = example_learner\<lparr>disk := cached_disk\<rparr>"

definition empty_primary_learner :: learner where
  "empty_primary_learner = example_learner\<lparr>disk := empty_primary_disk\<rparr>"

text \<open>Another dataset of the same path and image size, with other examples.\<close>

definition other_data :: dataset where
  "other_data = example_data\<lparr>d_trn_y := [1, 1, 0], d_val_y := [0], d_fix_dl := [4, 5, 6],
                             d_val_dl := [7]\<rparr>"

section \<open>Properties\<close>

lemma create_fc_layer_head_block: "create_fc_layer ni nf p actn = head_block ni nf p actn"
  by (simp add: create_fc_layer_def head_block_def split: option.split)

lemma hidden_blocks_Nil: "hidden_blocks ni [] rates i = []"
  by (simp add: hidden_blocks_def)

lemma hidden_blocks_Cons:
  "hidden_blocks ni (nf # rest) rates i =
     head_block ni nf (rates ! i) (Some ReLU) @ hidden_blocks nf rest rates (Suc i)"
proof -
  have "[0..<length (nf # rest)] = 0 # map Suc [0..<length rest]"
    by (simp add: upt_conv_Cons map_Suc_upt del: upt_Suc)
  then show ?thesis
    by (simp add: hidden_blocks_def comp_def del: upt_Suc)
qed

lemma fc_loop_ok:
  "i + length xfc \<le> length rates \<Longrightarrow>
   fc_loop rates i ni xfc res = Inr (last (ni # xfc), res @ hidden_blocks ni xfc rates i)"
proof (induction xfc arbitrary: i ni res)
  case Nil
  show ?case by (simp add: hidden_blocks_Nil)
next
  case (Cons nf rest)
  from Cons.prems have "i < length rates" and "Suc i + length rest \<le> length rates" by simp_all
  then show ?case
    using Cons.IH [of "Suc i" nf] 
    by (simp add: hidden_blocks_Cons create_fc_layer_head_block)
qed

lemma fc_loop_short:
  "i \<le> length rates \<Longrightarrow> length rates < i + length xfc \<Longrightarrow>
   fc_loop rates i ni xfc res = Inl IndexError"
  by (induction xfc arbitrary: i ni res) auto

lemma get_fc_layers_of_ok:
  assumes "length xfc \<le> length rates" and "rates \<noteq> []"
  shows "get_fc_layers_of nf0 xfc rates c multi reg =
           Inr (hidden_blocks nf0 xfc rates 0
                @ head_block (last (nf0 # xfc)) c (last rates) (final_activation multi reg))"
proof -
  have "fc_loop rates 0 nf0 xfc [] = Inr (last (nf0 # xfc), [] @ hidden_blocks nf0 xfc rates 0)"
    using assms(1) by (intro fc_loop_ok) simp
  then show ?thesis
    using assms(2)
    by (simp add: get_fc_layers_of_def final_activation_def create_fc_layer_head_block)
qed

lemma get_fc_layers_of_short:
  "length rates < length xfc \<Longrightarrow> get_fc_layers_of nf0 xfc rates c multi reg = Inl IndexError"
  using fc_loop_short [of 0 rates xfc nf0 "[]"] by (simp add: get_fc_layers_of_def)

lemma get_fc_layers_of_Inr_iff:
  "(\<exists>res. get_fc_layers_of nf0 xfc rates c multi reg = Inr res)
     \<longleftrightarrow> length xfc \<le> length rates \<and> rates \<noteq> []"
proof (cases "length xfc \<le> length rates")
  case True
  then have "fc_loop rates 0 nf0 xfc [] = Inr (last (nf0 # xfc), [] @ hidden_blocks nf0 xfc rates 0)"
    by (intro fc_loop_ok) simp
  then show ?thesis using True
    by (simp add: get_fc_layers_of_def)
next
  case False
  then show ?thesis by (simp add: get_fc_layers_of_short)
qed

lemma hd_hidden_head:
  "\<exists>rest. hidden_blocks nf0 xfc rates 0 @ head_block (last (nf0 # xfc)) c p a
            = BatchNorm1d nf0 # rest"
  by (cases xfc) (simp_all add: hidden_blocks_Nil hidden_blocks_Cons head_block_def)

text \<open>
  Claim C1. For a registered backbone \<open>f\<close>, the head that \<^verbatim>\<open>get_fc_layers\<close> produces starts
  with a batch-norm whose input width is the builder's feature width \<open>nf\<close>, and \<open>nf\<close> is
  \<^verbatim>\<open>model_features[f]\<close> when \<open>f\<close> is in that table and otherwise twice the inferred
  feature count of the truncated backbone, which the concat-pooling adapter follows.
\<close>
theorem head_input_width:
  assumes "ConvnetBuilder_init e f c multi reg ps xtra_fc xtra_cut = Inr b"
  shows "\<exists>cut lr_cut rest.
           model_meta f = Some (cut, lr_cut)
         \<and> b_nf b = (case model_features f of
                       Some n \<Rightarrow> n
                     | None \<Rightarrow> 2 * num_features e (cut_model e f (cut - xtra_cut)))
         \<and> top_model b = cut_model e f (cut - xtra_cut) @ [AdaptiveConcatPool2d, Flatten]
         \<and> get_fc_layers b = Inr (fc_model b)
         \<and> fc_model b = BatchNorm1d (b_nf b) # rest"
proof -
  from assms obtain cut lr_cut where meta: "model_meta f = Some (cut, lr_cut)"
    by (auto simp: ConvnetBuilder_init_def Let_def split: option.splits)
  define xfc where "xfc = xtra_fc_or_default xtra_fc"
  define rates where "rates = broadcast_ps (ps_or_default ps) (length xfc + 1)"
  define nf where "nf = (case model_features f of
                       Some n \<Rightarrow> n
                     | None \<Rightarrow> 2 * num_features e (cut_model e f (cut - xtra_cut)))"
  from assms meta obtain fc where
    fc: "get_fc_layers_of nf xfc rates c multi reg = Inr fc" and
    b: "b = \<lparr> b_f = f, b_c = c, b_is_multi = multi, b_is_reg = reg,
              b_xtra_cut = xtra_cut, b_ps = rates, b_xtra_fc = xfc,
              b_lr_cut = lr_cut, b_nf = nf,
              top_model = cut_model e f (cut - xtra_cut) @ [AdaptiveConcatPool2d, Flatten],
              b_n_fc = length fc, fc_model = fc,
              model = (cut_model e f (cut - xtra_cut) @ [AdaptiveConcatPool2d, Flatten]) @ fc \<rparr>"
    by (auto simp: ConvnetBuilder_init_def Let_def xfc_def rates_def nf_def mult.commute
             split: sum.splits option.splits)
  from fc have ok: "length xfc \<le> length rates \<and> rates \<noteq> []"
    using get_fc_layers_of_Inr_iff [of nf xfc rates c multi reg] by blast
  with fc have "fc = hidden_blocks nf xfc rates 0
                @ head_block (last (nf # xfc)) c (last rates) (final_activation multi reg)"
    by (simp add: get_fc_layers_of_ok)
  then obtain rest where "fc = BatchNorm1d nf # rest"
    using hd_hidden_head by metis
  with meta fc b show ?thesis
    by (simp add: get_fc_layers_def nf_def)
qed

lemma ConvnetBuilder_init_Inr:
  assumes "ConvnetBuilder_init e f c multi reg ps xtra_fc xtra_cut = Inr b"
  shows "b_ps b = broadcast_ps (ps_or_default ps) (length (xtra_fc_or_default xtra_fc) + 1)"
    and "b_xtra_fc b = xtra_fc_or_default xtra_fc"
    and "b_c b = c" and "b_is_multi b = multi" and "b_is_reg b = reg"
    and "b_f b = f" and "b_xtra_cut b = xtra_cut"
    and "get_fc_layers b = Inr (fc_model b)"
    and "model b = top_model b @ fc_model b"
    and "b_n_fc b = length (fc_model b)"
    and "\<exists>cut. model_meta f = Some (cut, b_lr_cut b)"
  using assms
  by (auto simp: ConvnetBuilder_init_def Let_def get_fc_layers_def
           split: sum.splits option.splits)

text \<open>
  Claim C4. Each head block is, in order, batch-norm, a dropout layer exactly when the
  rate is not zero, a linear layer, and the activation when one is given. Whenever the
  list of rates is long enough for \<^verbatim>\<open>get_fc_layers\<close> to return, the head is the hidden
  blocks with ReLU, one for each entry of \<^verbatim>\<open>xtra_fc\<close>, followed by the final block, whose
  activation is absent for regression, Sigmoid for multi-label and LogSoftmax otherwise;
  the head of every builder that \<^verbatim>\<open>__init__\<close> returns has this form.
\<close>
theorem head_block_order:
  "create_fc_layer ni nf p actn =
     [BatchNorm1d ni] @ (if p = 0 then [] else [Dropout p]) @ [Linear ni nf]
       @ (case actn of None \<Rightarrow> [] | Some a \<Rightarrow> [Activation a])
   \<and> (length (b_xtra_fc b) \<le> length (b_ps b) \<and> b_ps b \<noteq> [] \<longrightarrow>
        get_fc_layers b =
          Inr (concat (map (\<lambda>k. create_fc_layer ((b_nf b # b_xtra_fc b) ! k) (b_xtra_fc b ! k)
                                  (b_ps b ! k) (Some ReLU))
                         [0..<length (b_xtra_fc b)])
               @ create_fc_layer (last (b_nf b # b_xtra_fc b)) (b_c b) (last (b_ps b))
                   (if b_is_reg b then None
                    else if b_is_multi b then Some Sigmoid else Some LogSoftmax)))
   \<and> (ConvnetBuilder_init e f c multi reg ps xtra_fc xtra_cut = Inr b \<longrightarrow>
        fc_model b =
          hidden_blocks (b_nf b) (b_xtra_fc b) (b_ps b) 0
          @ head_block (last (b_nf b # b_xtra_fc b)) c (last (b_ps b))
              (final_activation multi reg))"
proof (intro conjI impI)
  show "create_fc_layer ni nf p actn =
     [BatchNorm1d ni] @ (if p = 0 then [] else [Dropout p]) @ [Linear ni nf]
       @ (case actn of None \<Rightarrow> [] | Some a \<Rightarrow> [Activation a])"
    by (simp add: create_fc_layer_head_block head_block_def)
next
  assume "length (b_xtra_fc b) \<le> length (b_ps b) \<and> b_ps b \<noteq> []"
  then show "get_fc_layers b =
          Inr (concat (map (\<lambda>k. create_fc_layer ((b_nf b # b_xtra_fc b) ! k) (b_xtra_fc b ! k)
                                  (b_ps b ! k) (Some ReLU))
                         [0..<length (b_xtra_fc b)])
               @ create_fc_layer (last (b_nf b # b_xtra_fc b)) (b_c b) (last (b_ps b))
                   (if b_is_reg b then None
                    else if b_is_multi b then Some Sigmoid else Some LogSoftmax))"
    by (simp add: get_fc_layers_def get_fc_layers_of_ok hidden_blocks_def
          create_fc_layer_head_block final_activation_def)
next
  assume init: "ConvnetBuilder_init e f c multi reg ps xtra_fc xtra_cut = Inr b"
  then have fc: "get_fc_layers b = Inr (fc_model b)"
    and flags: "b_c b = c" "b_is_multi b = multi" "b_is_reg b = reg"
    by (rule ConvnetBuilder_init_Inr)+
  from fc have "length (b_xtra_fc b) \<le> length (b_ps b) \<and> b_ps b \<noteq> []"
    using get_fc_layers_of_Inr_iff
      [of "b_nf b" "b_xtra_fc b" "b_ps b" "b_c b" "b_is_multi b" "b_is_reg b"]
    by (auto simp: get_fc_layers_def)
  with fc flags show "fc_model b =
          hidden_blocks (b_nf b) (b_xtra_fc b) (b_ps b) 0
          @ head_block (last (b_nf b # b_xtra_fc b)) c (last (b_ps b))
              (final_activation multi reg)"
    by (simp add: get_fc_layers_def get_fc_layers_of_ok)
qed

lemma ps_or_default_falsy: "falsy_ps ps \<Longrightarrow> ps_or_default ps = Rates [1/4, 1/2]"
  by (auto simp: falsy_ps_def)

lemma xtra_fc_or_default_falsy: "falsy_xtra_fc x \<Longrightarrow> xtra_fc_or_default x = [512]"
  by (auto simp: falsy_xtra_fc_def)

lemma default_head:
  "get_fc_layers_of nf0 [512] [p1, p2] c multi reg =
     Inr (create_fc_layer nf0 512 p1 (Some ReLU)
          @ create_fc_layer 512 c p2 (final_activation multi reg))"
  by (simp add: get_fc_layers_of_def final_activation_def)

text \<open>
  Claim C10. A falsy \<^verbatim>\<open>ps\<close> (\<^verbatim>\<open>None\<close>, \<open>0\<close>, \<open>0.0\<close>, \<open>[]\<close>) is replaced by \<open>[0.25, 0.5]\<close> and a falsy
  \<^verbatim>\<open>xtra_fc\<close> (\<^verbatim>\<open>None\<close>, \<open>[]\<close>) by \<open>[512]\<close>. With both falsy, so also for the scalar rate \<open>0\<close>,
  the head has the two default dropout layers; a rate \<open>0\<close> inside a non-empty list leaves
  the dropout layer of its block out.
\<close>
theorem falsy_arguments_take_defaults:
  "(ConvnetBuilder_init e f c multi reg ps xtra_fc xtra_cut = Inr b \<and> falsy_ps ps
      \<longrightarrow> b_ps b = [1/4, 1/2])
   \<and> (ConvnetBuilder_init e f c multi reg ps xtra_fc xtra_cut = Inr b \<and> falsy_xtra_fc xtra_fc
      \<longrightarrow> b_xtra_fc b = [512])
   \<and> (model_meta f \<noteq> None \<and> falsy_ps ps \<and> falsy_xtra_fc xtra_fc \<longrightarrow>
        (\<exists>b'. ConvnetBuilder_init e f c multi reg ps xtra_fc xtra_cut = Inr b'
            \<and> fc_model b' =
                [BatchNorm1d (b_nf b'), Dropout (1/4), Linear (b_nf b') 512, Activation ReLU,
                 BatchNorm1d 512, Dropout (1/2), Linear 512 c]
                @ (if reg then [] else if multi then [Activation Sigmoid]
                   else [Activation LogSoftmax])))
   \<and> (model_meta f \<noteq> None \<and> falsy_xtra_fc xtra_fc \<longrightarrow>
        (\<exists>b'. ConvnetBuilder_init e f c multi reg (PsList [0, p2]) xtra_fc xtra_cut = Inr b'
            \<and> b_ps b' = [0, p2]
            \<and> fc_model b' =
                [BatchNorm1d (b_nf b'), Linear (b_nf b') 512, Activation ReLU]
                @ create_fc_layer 512 c p2 (final_activation multi reg)))"
proof (intro conjI impI)
  assume "ConvnetBuilder_init e f c multi reg ps xtra_fc xtra_cut = Inr b \<and> falsy_ps ps"
  then have i: "ConvnetBuilder_init e f c multi reg ps xtra_fc xtra_cut = Inr b"
    and "falsy_ps ps" by simp_all
  then show "b_ps b = [1/4, 1/2]"
    using ConvnetBuilder_init_Inr(1) [OF i] by (simp add: ps_or_default_falsy)
next
  assume "ConvnetBuilder_init e f c multi reg ps xtra_fc xtra_cut = Inr b \<and> falsy_xtra_fc xtra_fc"
  then have i: "ConvnetBuilder_init e f c multi reg ps xtra_fc xtra_cut = Inr b"
    and "falsy_xtra_fc xtra_fc" by simp_all
  then show "b_xtra_fc b = [512]"
    using ConvnetBuilder_init_Inr(2) [OF i] by (simp add: xtra_fc_or_default_falsy)
next
  assume "model_meta f \<noteq> None \<and> falsy_ps ps \<and> falsy_xtra_fc xtra_fc"
  then obtain cut lr_cut where "model_meta f = Some (cut, lr_cut)"
    and "ps_or_default ps = Rates [1/4, 1/2]" and "xtra_fc_or_default xtra_fc = [512]"
    by (auto simp: ps_or_default_falsy xtra_fc_or_default_falsy)
  then show "\<exists>b'. ConvnetBuilder_init e f c multi reg ps xtra_fc xtra_cut = Inr b'
            \<and> fc_model b' =
                [BatchNorm1d (b_nf b'), Dropout (1/4), Linear (b_nf b') 512, Activation ReLU,
                 BatchNorm1d 512, Dropout (1/2), Linear 512 c]
                @ (if reg then [] else if multi then [Activation Sigmoid]
                   else [Activation LogSoftmax])"
    by (simp add: ConvnetBuilder_init_def Let_def default_head create_fc_layer_def
          final_activation_def)
next
  assume "model_meta f \<noteq> None \<and> falsy_xtra_fc xtra_fc"
  then obtain cut lr_cut where "model_meta f = Some (cut, lr_cut)"
    and "xtra_fc_or_default xtra_fc = [512]"
    by (auto simp: xtra_fc_or_default_falsy)
  then show "\<exists>b'. ConvnetBuilder_init e f c multi reg (PsList [0, p2]) xtra_fc xtra_cut = Inr b'
            \<and> b_ps b' = [0, p2]
            \<and> fc_model b' =
                [BatchNorm1d (b_nf b'), Linear (b_nf b') 512, Activation ReLU]
                @ create_fc_layer 512 c p2 (final_activation multi reg)"
    by (simp add: ConvnetBuilder_init_def Let_def default_head)
       (simp add: create_fc_layer_def)
qed

lemma example_builder_init:
  "ConvnetBuilder_init example_ext resnet34 10 False False PsNone None 0 = Inr example_builder"
  by (simp add: ConvnetBuilder_init_def example_ext_def example_builder_def
        get_fc_layers_of_def create_fc_layer_def Let_def)

text \<open>The default head on \<^verbatim>\<open>resnet34\<close>: the width is inferred, \<open>2 * 512\<close>.\<close>
theorem head_input_width_witness:
  "ConvnetBuilder_init example_ext resnet34 10 False False PsNone None 0 = Inr example_builder
   \<and> b_nf example_builder = 2 * 512
   \<and> (\<exists>rest. fc_model example_builder = BatchNorm1d 1024 # rest)"
  using head_input_width [OF example_builder_init] example_builder_init
  by (simp add: example_builder_def)

text \<open>The default head on \<^verbatim>\<open>resnet34\<close> for ten classes.\<close>
theorem head_block_order_witness:
  "length (b_xtra_fc example_builder) \<le> length (b_ps example_builder)
   \<and> b_ps example_builder \<noteq> []
   \<and> ConvnetBuilder_init example_ext resnet34 10 False False PsNone None 0 = Inr example_builder
   \<and> get_fc_layers example_builder =
       Inr [BatchNorm1d 1024, Dropout (1/4), Linear 1024 512, Activation ReLU,
            BatchNorm1d 512, Dropout (1/2), Linear 512 10, Activation LogSoftmax]
   \<and> fc_model example_builder =
       hidden_blocks 1024 [512] [1/4, 1/2] 0
       @ head_block 512 10 (1/2) (final_activation False False)"
proof -
  have h: "length (b_xtra_fc example_builder) \<le> length (b_ps example_builder)
           \<and> b_ps example_builder \<noteq> []"
    by (simp add: example_builder_def)
  note t = head_block_order [of 1024 512 "1/4" "Some ReLU" example_builder
             example_ext resnet34 10 False False PsNone None 0]
  from t h have "get_fc_layers example_builder =
          Inr (concat (map (\<lambda>k. create_fc_layer
                                  ((b_nf example_builder # b_xtra_fc example_builder) ! k)
                                  (b_xtra_fc example_builder ! k)
                                  (b_ps example_builder ! k) (Some ReLU))
                         [0..<length (b_xtra_fc example_builder)])
               @ create_fc_layer (last (b_nf example_builder # b_xtra_fc example_builder))
                   (b_c example_builder) (last (b_ps example_builder))
                   (if b_is_reg example_builder then None
                    else if b_is_multi example_builder then Some Sigmoid
                    else Some LogSoftmax))"
    by blast
  then have g: "get_fc_layers example_builder =
       Inr [BatchNorm1d 1024, Dropout (1/4), Linear 1024 512, Activation ReLU,
            BatchNorm1d 512, Dropout (1/2), Linear 512 10, Activation LogSoftmax]"
    by (simp add: example_builder_def create_fc_layer_def)
  from t example_builder_init have "fc_model example_builder =
          hidden_blocks (b_nf example_builder) (b_xtra_fc example_builder)
            (b_ps example_builder) 0
          @ head_block (last (b_nf example_builder # b_xtra_fc example_builder)) 10
              (last (b_ps example_builder)) (final_activation False False)"
    by blast
  then have m: "fc_model example_builder =
       hidden_blocks 1024 [512] [1/4, 1/2] 0
       @ head_block 512 10 (1/2) (final_activation False False)"
    by (simp add: example_builder_def)
  from h example_builder_init g m show ?thesis by blast
qed

text \<open>The scalar rate \<open>0\<close> with \<^verbatim>\<open>xtra_fc=[]\<close>, and the list \<open>[0, 0.5]\<close>.\<close>
theorem falsy_arguments_take_defaults_witness:
  "ConvnetBuilder_init example_ext resnet34 10 False False (PsInt 0) (Some []) 0
      = Inr example_builder
   \<and> falsy_ps (PsInt 0) \<and> falsy_xtra_fc (Some []) \<and> model_meta resnet34 \<noteq> None
   \<and> b_ps example_builder = [1/4, 1/2] \<and> b_xtra_fc example_builder = [512]
   \<and> (\<exists>b'. ConvnetBuilder_init example_ext resnet34 10 False False (PsList [0, 1/2]) (Some []) 0
               = Inr b'
          \<and> fc_model b' = [BatchNorm1d (b_nf b'), Linear (b_nf b') 512, Activation ReLU]
                           @ create_fc_layer 512 10 (1/2) (final_activation False False))"
proof -
  have i: "ConvnetBuilder_init example_ext resnet34 10 False False (PsInt 0) (Some []) 0
      = Inr example_builder"
    by (simp add: ConvnetBuilder_init_def example_ext_def example_builder_def
        get_fc_layers_of_def create_fc_layer_def Let_def)
  have f: "falsy_ps (PsInt 0)" "falsy_xtra_fc (Some [])" "model_meta resnet34 \<noteq> None"
    by (simp_all add: falsy_ps_def falsy_xtra_fc_def)
  show ?thesis
    using falsy_arguments_take_defaults
            [of example_ext resnet34 10 False False "PsInt 0" "Some []" 0 example_builder "1/2"]
          i f
    by blast
qed



lemma py_bound_le: "py_bound n i \<le> n"
  by (auto simp: py_bound_def)

lemma py_bound_0: "py_bound n 0 = 0"
  by (simp add: py_bound_def)

lemma py_bound_neg_length: "k \<le> n \<Longrightarrow> 0 < k \<Longrightarrow> py_bound n (- int k) = n - k"
  by (simp add: py_bound_def)

lemma split_by_idxs_Nil: "split_by_idxs seq [] = [seq]"
  by (simp add: split_by_idxs_def py_slice_from_def py_bound_0)

lemma split_by_idxs_two:
  "split_by_idxs seq [i, j] = [py_slice seq 0 i, py_slice seq i j, py_slice_from seq j]"
  by (simp add: split_by_idxs_def)

lemma get_layer_groups_on_fc [simp]: "get_layer_groups_on fc m lr n True = [fc]"
  by (simp add: get_layer_groups_on_def split_by_idxs_Nil)

lemma get_layer_groups_on_full:
  "get_layer_groups_on fc m lr n False =
     [py_slice m 0 lr, py_slice m lr (- int n), py_slice_from m (- int n)]"
  by (simp add: get_layer_groups_on_def split_by_idxs_two)






lemma broadcast_ps_nonempty: "broadcast_ps (ps_or_default ps) (Suc n) \<noteq> []"
  by (cases ps) simp_all

lemma ConvnetBuilder_init_unregistered:
  "model_meta f = None \<Longrightarrow>
   ConvnetBuilder_init e f c multi reg ps xtra_fc xtra_cut = Inl KeyError"
  by (simp add: ConvnetBuilder_init_def Let_def)

lemma ConvnetBuilder_init_returns:
  "(\<exists>b. ConvnetBuilder_init e f c multi reg ps xtra_fc xtra_cut = Inr b) \<longleftrightarrow>
     model_meta f \<noteq> None
     \<and> length (xtra_fc_or_default xtra_fc)
         \<le> length (broadcast_ps (ps_or_default ps) (Suc (length (xtra_fc_or_default xtra_fc))))"
proof (cases "model_meta f")
  case None
  then show ?thesis by (simp add: ConvnetBuilder_init_unregistered)
next
  case (Some m)
  obtain cut lr_cut where m: "m = (cut, lr_cut)" by (cases m)
  let ?xfc = "xtra_fc_or_default xtra_fc"
  let ?rates = "broadcast_ps (ps_or_default ps) (Suc (length ?xfc))"
  let ?nf = "case model_features f of
               Some n \<Rightarrow> n
             | None \<Rightarrow> num_features e (cut_model e f (cut - xtra_cut)) * 2"
  have "(\<exists>b. ConvnetBuilder_init e f c multi reg ps xtra_fc xtra_cut = Inr b)
          \<longleftrightarrow> (\<exists>res. get_fc_layers_of ?nf ?xfc ?rates c multi reg = Inr res)"
    using Some m
    by (cases "get_fc_layers_of ?nf ?xfc ?rates c multi reg")
       (simp_all add: ConvnetBuilder_init_def Let_def)
  also have "\<dots> \<longleftrightarrow> length ?xfc \<le> length ?rates"
    by (simp add: get_fc_layers_of_Inr_iff broadcast_ps_nonempty)
  finally show ?thesis using Some by simp
qed




lemma example_builder_built: "built example_builder"
  by (simp add: built_def example_builder_def)





lemma bind_err_Inr [simp]: "bind_err (Inr x) k = k x"
  by (simp add: bind_err_def)

lemma bind_err_Inl [simp]: "bind_err (Inl err) k = Inl err"
  by (simp add: bind_err_def)

lemma bind_err_eq_Inr: "bind_err r k = Inr y \<longleftrightarrow> (\<exists>x. r = Inr x \<and> k x = Inr y)"
  by (cases r) simp_all

lemma freeze_fields [simp]:
  "precompute (freeze s) = precompute s" "data_attr (freeze s) = data_attr s"
  "models (freeze s) = models s" "metrics (freeze s) = metrics s"
  "crit (freeze s) = crit s" "tmp_path (freeze s) = tmp_path s"
  "fc_data (freeze s) = fc_data s" "activations (freeze s) = activations s"
  "disk (freeze s) = disk s" "runs (freeze s) = runs s"
  by (simp_all add: freeze_def freeze_to_def Let_def)

lemma get_activations_Inr:
  assumes "get_activations s force = Inr s'"
  obtains d dk where "data_prop s = Inr d"
    and "s' = s\<lparr>activations := cache_names s d, disk := dk\<rparr>"
proof -
  from assms obtain d where d: "data_prop s = Inr d"
    by (cases "data_prop s") (simp_all add: get_activations_def)
  show ?thesis
  proof (cases "cache_names s d ! 0 \<in> dom (disk s) \<and> \<not> force")
    case True
    with assms d have "s' = s\<lparr>activations := cache_names s d\<rparr>"
      by (simp add: get_activations_def Let_def split: if_splits)
    then have "s' = s\<lparr>activations := cache_names s d, disk := disk s\<rparr>" by simp
    with d show ?thesis by (rule that)
  next
    case False
    with assms d have "s' = s\<lparr>activations := cache_names s d,
         disk := fold (create_empty_bcolz (b_nf (models s))) (cache_names s d) (disk s)\<rparr>"
      by (simp add: get_activations_def Let_def split: if_splits)
    with d show ?thesis by (rule that)
  qed
qed

lemma get_activations_fields:
  assumes "get_activations s force = Inr s'"
  shows "precompute s' = precompute s" "data_attr s' = data_attr s" "models s' = models s"
    "metrics s' = metrics s" "crit s' = crit s" "tmp_path s' = tmp_path s"
    "fc_data s' = fc_data s" "trainable s' = trainable s" "runs s' = runs s"
proof -
  from assms obtain d dk where "s' = s\<lparr>activations := cache_names s d, disk := dk\<rparr>"
    by (rule get_activations_Inr)
  then show "precompute s' = precompute s" "data_attr s' = data_attr s" "models s' = models s"
    "metrics s' = metrics s" "crit s' = crit s" "tmp_path s' = tmp_path s"
    "fc_data s' = fc_data s" "trainable s' = trainable s" "runs s' = runs s"
    by simp_all
qed

lemma run_predict_fields [simp]:
  "precompute (run_predict e m dl name s) = precompute s"
  "data_attr (run_predict e m dl name s) = data_attr s"
  "models (run_predict e m dl name s) = models s"
  "metrics (run_predict e m dl name s) = metrics s"
  "crit (run_predict e m dl name s) = crit s"
  "tmp_path (run_predict e m dl name s) = tmp_path s"
  "fc_data (run_predict e m dl name s) = fc_data s"
  "activations (run_predict e m dl name s) = activations s"
  "trainable (run_predict e m dl name s) = trainable s"
  by (simp_all add: run_predict_def)

lemma save_fc1_Inr:
  assumes "save_fc1 e s = Inr s'"
  obtains s1 d t where "get_activations s False = Inr s1" and "data_prop s1 = Inr d"
    and "t = s1 \<or> (\<exists>m. t = run_predict e m (d_val_dl d) (activations s1 ! 1)
                              (run_predict e m (d_fix_dl d) (activations s1 ! 0) s1))
             \<or> (\<exists>m dl. t = run_predict e m dl (activations s1 ! 2)
                         (run_predict e m (d_val_dl d) (activations s1 ! 1)
                              (run_predict e m (d_fix_dl d) (activations s1 ! 0) s1)))"
    and "\<exists>fc. s' = t\<lparr>fc_data := Some fc\<rparr>"
proof -
  from assms obtain s1 d where g: "get_activations s False = Inr s1"
    and d: "data_prop s1 = Inr d"
    and b: "s' = (if length (rows (the_array (disk s1) (activations s1 ! 0))) = 0
                then (case d_test_dl d of
                        Some dl \<Rightarrow> run_predict e (top_model (models s1)) dl (activations s1 ! 2)
                                     (run_predict e (top_model (models s1)) (d_val_dl d)
                                        (activations s1 ! 1)
                                        (run_predict e (top_model (models s1)) (d_fix_dl d)
                                           (activations s1 ! 0) s1))
                      | None \<Rightarrow> run_predict e (top_model (models s1)) (d_val_dl d)
                                        (activations s1 ! 1)
                                        (run_predict e (top_model (models s1)) (d_fix_dl d)
                                           (activations s1 ! 0) s1))
                else s1)
             \<lparr>fc_data := Some (from_arrays e (d_path d) (activations s1 ! 0, d_trn_y d)
                                     (activations s1 ! 1, d_val_y d) (d_bs d) (d_classes d)
                                     (case d_test_dl d of Some dl \<Rightarrow> Some (activations s1 ! 2)
                                      | None \<Rightarrow> None))\<rparr>"
    unfolding save_fc1_def bind_err_eq_Inr Let_def
    by (metis sum.inject(2))
  show ?thesis
    by (rule that [OF g d _ _, of "(if length (rows (the_array (disk s1) (activations s1 ! 0))) = 0
                then (case d_test_dl d of
                        Some dl \<Rightarrow> run_predict e (top_model (models s1)) dl (activations s1 ! 2)
                                     (run_predict e (top_model (models s1)) (d_val_dl d)
                                        (activations s1 ! 1)
                                        (run_predict e (top_model (models s1)) (d_fix_dl d)
                                           (activations s1 ! 0) s1))
                      | None \<Rightarrow> run_predict e (top_model (models s1)) (d_val_dl d)
                                        (activations s1 ! 1)
                                        (run_predict e (top_model (models s1)) (d_fix_dl d)
                                           (activations s1 ! 0) s1))
                else s1)"])
       (auto simp: b split: option.splits)
qed

lemma save_fc1_fields:
  assumes "save_fc1 e s = Inr s'"
  shows "precompute s' = precompute s" "data_attr s' = data_attr s" "models s' = models s"
    "metrics s' = metrics s" "crit s' = crit s" "tmp_path s' = tmp_path s"
    "trainable s' = trainable s"
proof -
  from assms obtain s1 d t where g: "get_activations s False = Inr s1"
    and "data_prop s1 = Inr d"
    and t: "t = s1 \<or> (\<exists>m. t = run_predict e m (d_val_dl d) (activations s1 ! 1)
                              (run_predict e m (d_fix_dl d) (activations s1 ! 0) s1))
             \<or> (\<exists>m dl. t = run_predict e m dl (activations s1 ! 2)
                         (run_predict e m (d_val_dl d) (activations s1 ! 1)
                              (run_predict e m (d_fix_dl d) (activations s1 ! 0) s1)))"
    and s': "\<exists>fc. s' = t\<lparr>fc_data := Some fc\<rparr>"
    by (rule save_fc1_Inr)
  note f = get_activations_fields [OF g]
  from t have "precompute t = precompute s1 \<and> data_attr t = data_attr s1
      \<and> models t = models s1 \<and> metrics t = metrics s1 \<and> crit t = crit s1
      \<and> tmp_path t = tmp_path s1 \<and> trainable t = trainable s1"
    by (elim disjE exE) simp_all
  with s' f show "precompute s' = precompute s" "data_attr s' = data_attr s"
    "models s' = models s" "metrics s' = metrics s" "crit s' = crit s"
    "tmp_path s' = tmp_path s" "trainable s' = trainable s"
    by auto
qed

lemma init_until_caching_fields [simp]:
  "precompute (init_until_caching data0 models0 metrics0 tn tr0 dk0) = False"
  "data_attr (init_until_caching data0 models0 metrics0 tn tr0 dk0) = data0"
  "models (init_until_caching data0 models0 metrics0 tn tr0 dk0) = models0"
  "fc_data (init_until_caching data0 models0 metrics0 tn tr0 dk0) = None"
  "trainable (init_until_caching data0 models0 metrics0 tn tr0 dk0) = tr0"
  "disk (init_until_caching data0 models0 metrics0 tn tr0 dk0) = dk0"
  "runs (init_until_caching data0 models0 metrics0 tn tr0 dk0) = []"
  "tmp_path (init_until_caching data0 models0 metrics0 tn tr0 dk0) = d_path data0 @ ''/'' @ tn"
  by (simp_all add: init_until_caching_def Learner_init_def)

lemma ConvLearner_init_eq:
  "ConvLearner_init e data0 models0 p metrics0 tn tr0 dk0 =
     bind_err (if p then save_fc1 e (init_until_caching data0 models0 metrics0 tn tr0 dk0)
               else Inr (init_until_caching data0 models0 metrics0 tn tr0 dk0))
       (\<lambda>s. Inr ((freeze s)\<lparr>precompute := p\<rparr>))"
  by (cases metrics0)
     (simp_all add: ConvLearner_init_def init_until_caching_def Learner_init_def data_prop_def
        Let_def)

lemma ConvLearner_init_Inr:
  assumes "ConvLearner_init e data0 models0 p metrics0 tn tr0 dk0 = Inr s'"
  obtains s2 where
    "if p then save_fc1 e (init_until_caching data0 models0 metrics0 tn tr0 dk0) = Inr s2
     else s2 = init_until_caching data0 models0 metrics0 tn tr0 dk0"
    and "s' = (freeze s2)\<lparr>precompute := p\<rparr>"
  using assms unfolding ConvLearner_init_eq
  by (cases p) (auto simp: bind_err_eq_Inr)

lemma ConvLearner_init_no_precompute:
  "ConvLearner_init e data0 models0 False metrics0 tn tr0 dk0 =
     Inr (freeze (init_until_caching data0 models0 metrics0 tn tr0 dk0))"
proof -
  have "(freeze (init_until_caching data0 models0 metrics0 tn tr0 dk0))\<lparr>precompute := False\<rparr>
        = freeze (init_until_caching data0 models0 metrics0 tn tr0 dk0)"
    by (simp add: freeze_def freeze_to_def Let_def)
  then show ?thesis by (simp add: ConvLearner_init_eq)
qed

text \<open>
  Claim C2. \<^verbatim>\<open>ConvLearner.__init__\<close> sets the loss to L1 for a regression dataset (also when
  it is multi-label as well), otherwise to binary cross-entropy for a multi-label dataset
  and to negative log-likelihood for the rest. Without precompute the constructor always
  returns.
\<close>
theorem loss_selection:
  "(\<exists>s'. ConvLearner_init e data0 models0 False metrics0 tn tr0 dk0 = Inr s')
   \<and> (ConvLearner_init e data0 models0 p metrics0 tn tr0 dk0 = Inr s \<longrightarrow>
        crit s = Some (if d_is_reg data0 then l1_loss
                       else if d_is_multi data0 then binary_cross_entropy else nll_loss))"
proof (intro conjI impI)
  show "\<exists>s'. ConvLearner_init e data0 models0 False metrics0 tn tr0 dk0 = Inr s'"
    by (simp add: ConvLearner_init_no_precompute)
next
  assume "ConvLearner_init e data0 models0 p metrics0 tn tr0 dk0 = Inr s"
  then obtain s2 where
    s2: "if p then save_fc1 e (init_until_caching data0 models0 metrics0 tn tr0 dk0) = Inr s2
         else s2 = init_until_caching data0 models0 metrics0 tn tr0 dk0"
    and s: "s = (freeze s2)\<lparr>precompute := p\<rparr>"
    by (rule ConvLearner_init_Inr)
  from s2 have "crit s2 = crit (init_until_caching data0 models0 metrics0 tn tr0 dk0)"
    by (cases p) (simp_all add: save_fc1_fields)
  with s show "crit s = Some (if d_is_reg data0 then l1_loss
                       else if d_is_multi data0 then binary_cross_entropy else nll_loss)"
    by (simp add: init_until_caching_def)
qed

text \<open>
  Claim C3, amended. When no metrics are supplied and the dataset is not a regression
  task, \<^verbatim>\<open>__init__\<close> installs multi-label accuracy for a multi-label dataset and plain
  accuracy otherwise; for a regression task the metrics stay as supplied, so \<open>None\<close> stays
  \<open>None\<close>; supplied metrics are kept.
\<close>
theorem default_metric:
  "ConvLearner_init e data0 models0 p metrics0 tn tr0 dk0 = Inr s \<longrightarrow>
     metrics s =
       (if d_is_reg data0 then metrics0
        else case metrics0 of
               None \<Rightarrow> Some (if d_is_multi data0 then [accuracy_multi] else [accuracy])
             | Some ms \<Rightarrow> Some ms)"
proof
  assume "ConvLearner_init e data0 models0 p metrics0 tn tr0 dk0 = Inr s"
  then obtain s2 where
    s2: "if p then save_fc1 e (init_until_caching data0 models0 metrics0 tn tr0 dk0) = Inr s2
         else s2 = init_until_caching data0 models0 metrics0 tn tr0 dk0"
    and s: "s = (freeze s2)\<lparr>precompute := p\<rparr>"
    by (rule ConvLearner_init_Inr)
  from s2 have "metrics s2 = metrics (init_until_caching data0 models0 metrics0 tn tr0 dk0)"
    by (cases p) (simp_all add: save_fc1_fields)
  with s show "metrics s =
       (if d_is_reg data0 then metrics0
        else case metrics0 of
               None \<Rightarrow> Some (if d_is_multi data0 then [accuracy_multi] else [accuracy])
             | Some ms \<Rightarrow> Some ms)"
    by (simp add: init_until_caching_def)
qed


lemma take_upt_min: "take k [a..<n] = [a..<min (a + k) n]"
proof (cases "a + k \<le> n")
  case True
  then show ?thesis by (simp add: take_upt min_def)
next
  case False
  then have "length [a..<n] \<le> k" by simp
  then have "take k [a..<n] = [a..<n]" by (rule take_all)
  with False show ?thesis by (simp add: min_def)
qed

lemma set_py_slice_upt: "set (py_slice [0..<n] lo hi) = {py_bound n lo..<py_bound n hi}"
proof -
  have "py_bound n hi \<le> n" by (rule py_bound_le)
  then show ?thesis
    by (auto simp: py_slice_def Let_def drop_upt take_upt_min)
qed

lemma py_slice_from_upt: "py_slice_from [0..<n] lo = [py_bound n lo..<n]"
  by (simp add: py_slice_from_def drop_upt)

lemma group_ids_fc:
  "get_layer_group_ids b True = [[length (model b) - length (fc_model b)..<length (model b)]]"
  by (simp add: get_layer_group_ids_def fc_model_ids_def)

lemma group_ids_full:
  assumes "built b"
  shows "get_layer_group_ids b False =
           [py_slice [0..<length (model b)] 0 (b_lr_cut b),
            py_slice [0..<length (model b)] (b_lr_cut b) (- int (length (fc_model b))),
            [length (top_model b)..<length (model b)]]"
proof -
  from assms have m: "model b = top_model b @ fc_model b"
    and n: "b_n_fc b = length (fc_model b)" and len: "0 < length (fc_model b)"
    by (simp_all add: built_def)
  have "py_bound (length (model b)) (- int (length (fc_model b))) = length (top_model b)"
    using len by (simp add: m py_bound_neg_length)
  then show ?thesis
    by (simp add: get_layer_group_ids_def get_layer_groups_on_full model_ids_def n
          py_slice_from_upt)
qed

lemma py_slice_from_last_of_three: "py_slice_from [g0, g1, g2] (- 1) = [g2]"
  by (simp add: py_slice_from_def py_bound_def)

lemma py_slice_from_last_of_one: "py_slice_from [g0] (- 1) = [g0]"
  by (simp add: py_slice_from_def py_bound_def)

lemma freeze_trainable_full:
  assumes "built (models s)" and "\<not> precompute s"
  shows "trainable (freeze s) i =
           (if i < length (top_model (models s)) then False
            else if i < length (model (models s)) then True
            else trainable s i)"
proof -
  let ?b = "models s"
  let ?N = "length (model ?b)"
  let ?T = "length (top_model ?b)"
  from assms(1) have TN: "?T < ?N" by (simp add: built_def)
  have b0: "py_bound ?N 0 = 0" by (rule py_bound_0)
  have bF: "py_bound ?N (- int (length (fc_model ?b))) = ?T"
    using assms(1) by (simp add: built_def py_bound_neg_length)
  have cover: "i < ?T \<Longrightarrow>
      i \<in> {0..<py_bound ?N (b_lr_cut ?b)} \<or> i \<in> {py_bound ?N (b_lr_cut ?b)..<?T}"
    by auto
  have upper: "i \<in> {0..<py_bound ?N (b_lr_cut ?b)} \<Longrightarrow> i < ?N"
    using py_bound_le [of ?N "b_lr_cut ?b"] by simp
  show ?thesis
    using assms(2) TN cover upper
    by (auto simp: freeze_def freeze_to_def Let_def group_ids_full [OF assms(1)]
          py_slice_from_last_of_three set_py_slice_upt b0 bF)
qed

lemma freeze_trainable_fc:
  assumes "built (models s)" and "precompute s"
  shows "trainable (freeze s) i =
           (if length (top_model (models s)) \<le> i \<and> i < length (model (models s)) then True
            else trainable s i)"
  using assms
  by (auto simp: freeze_def freeze_to_def Let_def group_ids_fc py_slice_from_last_of_one
        built_def)

text \<open>
  Claim C9. Whatever the precompute argument, the constructor ends with \<^verbatim>\<open>freeze\<close>, that is
  \<^verbatim>\<open>freeze_to(-1)\<close>, and sets the precompute field to the argument as its last step; the
  field is \<open>False\<close> in the state that \<^verbatim>\<open>save_fc1\<close> receives and in the state that is
  frozen, so the properties give the full model and the original data while the cache
  is filled. For a builder that \<^verbatim>\<open>ConvnetBuilder.__init__\<close> returned, freezing leaves the
  layers of the head trainable and no layer before them.
\<close>
theorem constructor_order:
  assumes "ConvLearner_init e data0 models0 p metrics0 tn tr0 dk0 = Inr s"
  shows "\<exists>s1 s2.
           s1 = init_until_caching data0 models0 metrics0 tn tr0 dk0
         \<and> precompute s1 = False
         \<and> model_prop s1 = model models0
         \<and> data_prop s1 = Inr data0
         \<and> (if p then save_fc1 e s1 = Inr s2 else s2 = s1)
         \<and> precompute s2 = False
         \<and> s = (freeze_to (- 1) s2)\<lparr>precompute := p\<rparr>
         \<and> precompute s = p
         \<and> (built models0 \<longrightarrow>
              (\<forall>i. trainable s i =
                 (if i < length (top_model models0) then False
                  else if i < length (model models0) then True
                  else tr0 i)))"
proof -
  let ?s1 = "init_until_caching data0 models0 metrics0 tn tr0 dk0"
  from assms obtain s2 where
    s2: "if p then save_fc1 e ?s1 = Inr s2 else s2 = ?s1"
    and s: "s = (freeze s2)\<lparr>precompute := p\<rparr>"
    by (rule ConvLearner_init_Inr)
  from s2 have f: "precompute s2 = False" "models s2 = models0" "trainable s2 = tr0"
    by (cases p; simp add: save_fc1_fields)+
  have tr: "built models0 \<longrightarrow>
              (\<forall>i. trainable s i =
                 (if i < length (top_model models0) then False
                  else if i < length (model models0) then True
                  else tr0 i))"
  proof (intro impI allI)
    fix i
    assume "built models0"
    with f have "built (models s2)" and "\<not> precompute s2" by simp_all
    from freeze_trainable_full [OF this, of i] f s
    show "trainable s i =
                 (if i < length (top_model models0) then False
                  else if i < length (model models0) then True
                  else tr0 i)"
      by simp
  qed
  have "model_prop ?s1 = model models0" "data_prop ?s1 = Inr data0"
    by (simp_all add: model_prop_def data_prop_def)
  moreover have "precompute ?s1 = False" by simp
  moreover from s have "s = (freeze_to (- 1) s2)\<lparr>precompute := p\<rparr>" "precompute s = p"
    by (simp_all add: freeze_def)
  ultimately show ?thesis
    using s2 f(1) tr by (intro exI [of _ ?s1] exI [of _ s2]) simp
qed

lemma save_fc1_eq:
  "save_fc1 e s0 =
     bind_err (get_activations s0 False) (\<lambda>s.
     bind_err (data_prop s) (\<lambda>d.
       Inr ((if rows (the_array (disk s) (activations s ! 0)) = [] then run_backbone e d s
             else s)
            \<lparr>fc_data := Some (cached_dataset e d (activations s))\<rparr>)))"
  by (simp add: save_fc1_def run_backbone_def cached_dataset_def Let_def
        cong: if_cong split: option.split)

lemma cache_names_length [simp]: "length (cache_names s d) = 3"
  by (simp add: cache_names_def)

lemma cache_names_nth:
  "cache_names s d ! 0 = (tmp_path s, x_act, b_f (models s), b_xtra_cut (models s), d_sz d)"
  "cache_names s d ! 1 = (tmp_path s, x_act_val, b_f (models s), b_xtra_cut (models s), d_sz d)"
  "cache_names s d ! 2 = (tmp_path s, x_act_test, b_f (models s), b_xtra_cut (models s), d_sz d)"
  by (simp_all add: cache_names_def)

lemma cache_names_set:
  "set (cache_names s d) = {cache_names s d ! 0, cache_names s d ! 1, cache_names s d ! 2}"
  by (simp add: cache_names_def)

lemma get_activations_open:
  assumes "data_prop s = Inr d" and "cache_names s d ! 0 \<in> dom (disk s)"
  shows "get_activations s False =
           (if set (cache_names s d) \<subseteq> dom (disk s)
            then Inr (s\<lparr>activations := cache_names s d\<rparr>) else Inl OpenError)"
proof -
  have "(\<forall>p \<in> set (cache_names s d). p \<in> dom (disk s))
          \<longleftrightarrow> set (cache_names s d) \<subseteq> dom (disk s)"
    by blast
  with assms show ?thesis
    by (simp add: get_activations_def Let_def)
qed

lemma get_activations_create:
  assumes "data_prop s = Inr d" and "cache_names s d ! 0 \<notin> dom (disk s) \<or> force"
  shows "get_activations s force =
           Inr (s\<lparr>activations := cache_names s d,
                  disk := fold (create_empty_bcolz (b_nf (models s))) (cache_names s d)
                            (disk s)\<rparr>)"
  using assms by (auto simp: get_activations_def Let_def)

lemma data_prop_activations [simp]:
  "data_prop (s\<lparr>activations := a\<rparr>) = data_prop s"
  "data_prop (s\<lparr>activations := a, disk := dk\<rparr>) = data_prop s"
  by (simp_all add: data_prop_def)

lemma save_fc1_reuse:
  assumes "data_prop s = Inr d" and "set (cache_names s d) \<subseteq> dom (disk s)"
    and "rows (the_array (disk s) (cache_names s d ! 0)) \<noteq> []"
  shows "save_fc1 e s =
           Inr (s\<lparr>activations := cache_names s d,
                  fc_data := Some (cached_dataset e d (cache_names s d))\<rparr>)"
proof -
  from assms(2) have "cache_names s d ! 0 \<in> dom (disk s)"
    by (simp add: cache_names_set)
  with assms(1,2) have "get_activations s False = Inr (s\<lparr>activations := cache_names s d\<rparr>)"
    by (simp add: get_activations_open)
  with assms(1,3) show ?thesis
    by (simp add: save_fc1_eq)
qed

lemma save_fc1_open_error:
  assumes "data_prop s = Inr d" and "cache_names s d ! 0 \<in> dom (disk s)"
    and "\<not> set (cache_names s d) \<subseteq> dom (disk s)"
  shows "save_fc1 e s = Inl OpenError"
  using assms by (simp add: save_fc1_eq get_activations_open)

lemma save_fc1_refill:
  assumes "data_prop s = Inr d" and "set (cache_names s d) \<subseteq> dom (disk s)"
    and "rows (the_array (disk s) (cache_names s d ! 0)) = []"
  shows "save_fc1 e s =
           Inr ((run_backbone e d (s\<lparr>activations := cache_names s d\<rparr>))
                  \<lparr>fc_data := Some (cached_dataset e d (cache_names s d))\<rparr>)"
proof -
  from assms(2) have "cache_names s d ! 0 \<in> dom (disk s)"
    by (simp add: cache_names_set)
  with assms(1,2) have "get_activations s False = Inr (s\<lparr>activations := cache_names s d\<rparr>)"
    by (simp add: get_activations_open)
  with assms(1,3) show ?thesis
    by (simp add: save_fc1_eq)
qed

lemma fold_create_empty:
  "fold (create_empty_bcolz n) (cache_names s d) dk =
     dk(cache_names s d ! 0 \<mapsto> \<lparr> width = n, rows = [] \<rparr>,
        cache_names s d ! 1 \<mapsto> \<lparr> width = n, rows = [] \<rparr>,
        cache_names s d ! 2 \<mapsto> \<lparr> width = n, rows = [] \<rparr>)"
  by (simp add: cache_names_def create_empty_bcolz_def)

lemma save_fc1_absent:
  assumes "data_prop s = Inr d" and "cache_names s d ! 0 \<notin> dom (disk s)"
  shows "save_fc1 e s =
           Inr ((run_backbone e d
                   (s\<lparr>activations := cache_names s d,
                      disk := fold (create_empty_bcolz (b_nf (models s))) (cache_names s d)
                                (disk s)\<rparr>))
                  \<lparr>fc_data := Some (cached_dataset e d (cache_names s d))\<rparr>)"
proof -
  from assms have "get_activations s False =
           Inr (s\<lparr>activations := cache_names s d,
                  disk := fold (create_empty_bcolz (b_nf (models s))) (cache_names s d)
                            (disk s)\<rparr>)"
    by (simp add: get_activations_create)
  moreover have "rows (the_array
      (fold (create_empty_bcolz (b_nf (models s))) (cache_names s d) (disk s))
      (cache_names s d ! 0)) = []"
    by (simp add: fold_create_empty the_array_def cache_names_nth)
  ultimately show ?thesis
    using assms(1) by (simp add: save_fc1_eq)
qed

lemma run_backbone_runs:
  "runs (run_backbone e d s) = runs s @ passes d (activations s)"
  by (simp add: run_backbone_def passes_def run_predict_def Let_def split: option.split)

lemma run_backbone_fields [simp]:
  "precompute (run_backbone e d s) = precompute s"
  "data_attr (run_backbone e d s) = data_attr s"
  "models (run_backbone e d s) = models s"
  "trainable (run_backbone e d s) = trainable s"
  "activations (run_backbone e d s) = activations s"
  by (simp_all add: run_backbone_def Let_def split: option.split)

lemma passes_nonempty: "passes d names \<noteq> []"
  by (simp add: passes_def)

text \<open>
  Claim C7, amended. When the training array is on disk with at least one row and force
  is unset, \<^verbatim>\<open>get_activations\<close> and \<^verbatim>\<open>save_fc1\<close> open the three arrays and change neither
  the disk nor the log of backbone passes; when the validation or test array is missing
  they raise and nothing is recomputed. \<^verbatim>\<open>save_fc1\<close> runs the backbone or writes to disk
  only when the training array is absent or has no rows, and \<^verbatim>\<open>get_activations\<close> writes
  to disk only when the training array is absent or force is set.
\<close>
theorem cache_reuse:
  assumes "data_prop s = Inr d"
  shows
   "(cache_names s d ! 0 \<in> dom (disk s)
       \<and> rows (the_array (disk s) (cache_names s d ! 0)) \<noteq> [] \<longrightarrow>
       (if set (cache_names s d) \<subseteq> dom (disk s)
        then get_activations s False = Inr (s\<lparr>activations := cache_names s d\<rparr>)
           \<and> save_fc1 e s =
               Inr (s\<lparr>activations := cache_names s d,
                      fc_data := Some (cached_dataset e d (cache_names s d))\<rparr>)
        else get_activations s False = Inl OpenError \<and> save_fc1 e s = Inl OpenError))
    \<and> (\<forall>s'. save_fc1 e s = Inr s' \<and> (runs s' \<noteq> runs s \<or> disk s' \<noteq> disk s) \<longrightarrow>
          cache_names s d ! 0 \<notin> dom (disk s)
          \<or> rows (the_array (disk s) (cache_names s d ! 0)) = [])
    \<and> (\<forall>force s'. get_activations s force = Inr s' \<and> disk s' \<noteq> disk s \<longrightarrow>
          cache_names s d ! 0 \<notin> dom (disk s) \<or> force)"
proof (intro conjI impI allI)
  assume p: "cache_names s d ! 0 \<in> dom (disk s)
       \<and> rows (the_array (disk s) (cache_names s d ! 0)) \<noteq> []"
  show "if set (cache_names s d) \<subseteq> dom (disk s)
        then get_activations s False = Inr (s\<lparr>activations := cache_names s d\<rparr>)
           \<and> save_fc1 e s =
               Inr (s\<lparr>activations := cache_names s d,
                      fc_data := Some (cached_dataset e d (cache_names s d))\<rparr>)
        else get_activations s False = Inl OpenError \<and> save_fc1 e s = Inl OpenError"
    using assms p
    by (simp add: get_activations_open save_fc1_reuse save_fc1_open_error)
next
  fix s'
  assume a: "save_fc1 e s = Inr s' \<and> (runs s' \<noteq> runs s \<or> disk s' \<noteq> disk s)"
  show "cache_names s d ! 0 \<notin> dom (disk s)
          \<or> rows (the_array (disk s) (cache_names s d ! 0)) = []"
  proof (rule ccontr)
    assume "\<not> (cache_names s d ! 0 \<notin> dom (disk s)
          \<or> rows (the_array (disk s) (cache_names s d ! 0)) = [])"
    then have p: "cache_names s d ! 0 \<in> dom (disk s)"
      and r: "rows (the_array (disk s) (cache_names s d ! 0)) \<noteq> []"
      by simp_all
    show False
    proof (cases "set (cache_names s d) \<subseteq> dom (disk s)")
      case True
      from save_fc1_reuse [OF assms True r, of e] a show False by auto
    next
      case False
      from save_fc1_open_error [OF assms p False, of e] a show False by simp
    qed
  qed
next
  fix force s'
  assume a: "get_activations s force = Inr s' \<and> disk s' \<noteq> disk s"
  show "cache_names s d ! 0 \<notin> dom (disk s) \<or> force"
  proof (rule ccontr)
    assume "\<not> (cache_names s d ! 0 \<notin> dom (disk s) \<or> force)"
    then have p: "cache_names s d ! 0 \<in> dom (disk s)" and f: "force = False" by simp_all
    from get_activations_open [OF assms p] a f show False
      by (auto split: if_splits)
  qed
qed

text \<open>The example data is plain classification: negative log-likelihood.\<close>
theorem loss_selection_witness:
  "ConvLearner_init example_ext example_data example_builder False None ''tmp''
       all_trainable empty_disk
     = Inr (freeze (init_until_caching example_data example_builder None ''tmp''
                      all_trainable empty_disk))
   \<and> crit (freeze (init_until_caching example_data example_builder None ''tmp''
                      all_trainable empty_disk)) = Some nll_loss"
proof -
  let ?s = "freeze (init_until_caching example_data example_builder None ''tmp''
                      all_trainable empty_disk)"
  have i: "ConvLearner_init example_ext example_data example_builder False None ''tmp''
       all_trainable empty_disk = Inr ?s"
    by (rule ConvLearner_init_no_precompute)
  from loss_selection [of example_ext example_data example_builder None "''tmp''"
         all_trainable empty_disk False ?s] i
  have "crit ?s = Some (if d_is_reg example_data then l1_loss
                       else if d_is_multi example_data then binary_cross_entropy
                       else nll_loss)"
    by blast
  then have "crit ?s = Some nll_loss" by (simp add: example_data_def)
  with i show ?thesis by blast
qed

text \<open>Plain classification without metrics: plain accuracy is installed.\<close>
theorem default_metric_witness:
  "ConvLearner_init example_ext example_data example_builder False None ''tmp''
       all_trainable empty_disk
     = Inr (freeze (init_until_caching example_data example_builder None ''tmp''
                      all_trainable empty_disk))
   \<and> metrics (freeze (init_until_caching example_data example_builder None ''tmp''
                      all_trainable empty_disk)) = Some [accuracy]"
proof -
  let ?s = "freeze (init_until_caching example_data example_builder None ''tmp''
                      all_trainable empty_disk)"
  have i: "ConvLearner_init example_ext example_data example_builder False None ''tmp''
       all_trainable empty_disk = Inr ?s"
    by (rule ConvLearner_init_no_precompute)
  from default_metric [of example_ext example_data example_builder False None "''tmp''"
         all_trainable empty_disk ?s] i
  have "metrics ?s =
       (if d_is_reg example_data then None
        else case None of
               None \<Rightarrow> Some (if d_is_multi example_data then [accuracy_multi] else [accuracy])
             | Some ms \<Rightarrow> Some ms)"
    by blast
  then have "metrics ?s = Some [accuracy]" by (simp add: example_data_def)
  with i show ?thesis by blast
qed

lemma example_reg_builder_init:
  "ConvnetBuilder_init example_ext resnet34 10 False True PsNone None 0
     = Inr example_reg_builder"
  by (simp add: ConvnetBuilder_init_def example_ext_def example_reg_builder_def
        get_fc_layers_of_def create_fc_layer_def Let_def)

text \<open>
  Claim C3 as stated fails for a regression dataset: \<^verbatim>\<open>ConvLearner.pretrained\<close> without
  metrics leaves \<^verbatim>\<open>metrics\<close> at \<open>None\<close>, since the default is in the \<^verbatim>\<open>elif\<close> branch.
\<close>
theorem default_metric_counterexample:
  "d_is_reg example_reg_data
   \<and> pretrained example_ext resnet34 example_reg_data PsNone None 0 False None ''tmp''
       all_trainable empty_disk
     = Inr (freeze (init_until_caching example_reg_data example_reg_builder None ''tmp''
                      all_trainable empty_disk))
   \<and> metrics (freeze (init_until_caching example_reg_data example_reg_builder None ''tmp''
                        all_trainable empty_disk)) = None"
proof -
  have d: "d_c example_reg_data = 10" "d_is_multi example_reg_data = False"
    "d_is_reg example_reg_data = True"
    by (simp_all add: example_reg_data_def example_data_def)
  then have "pretrained example_ext resnet34 example_reg_data PsNone None 0 False None ''tmp''
       all_trainable empty_disk
     = Inr (freeze (init_until_caching example_reg_data example_reg_builder None ''tmp''
                      all_trainable empty_disk))"
    by (simp add: pretrained_def example_reg_builder_init ConvLearner_init_no_precompute)
  moreover have "metrics (freeze (init_until_caching example_reg_data example_reg_builder
                        None ''tmp'' all_trainable empty_disk)) = None"
    by (simp add: init_until_caching_def Learner_init_def d)
  ultimately show ?thesis using d by simp
qed

lemma example_data_loaders:
  "d_fix_dl example_data = [1, 2]" "d_val_dl example_data = [3]"
  "d_test_dl example_data = None"
  "d_fix_dl other_data = [4, 5, 6]" "d_val_dl other_data = [7]"
  "d_test_dl other_data = None"
  by (simp_all add: example_data_def other_data_def)

lemma example_learner_fields:
  "precompute example_learner = False" "data_attr example_learner = example_data"
  "models example_learner = example_builder" "tmp_path example_learner = ''data/tmp''"
  "runs example_learner = []" "fc_data example_learner = None"
  by (simp_all add: example_learner_def Learner_init_def example_data_def)

lemma example_cache_names:
  "cache_names (example_learner\<lparr>disk := dk\<rparr>) example_data
     = [act_file x_act, act_file x_act_val, act_file x_act_test]"
  "cache_names (example_learner\<lparr>disk := dk\<rparr>) other_data
     = [act_file x_act, act_file x_act_val, act_file x_act_test]"
  by (simp_all add: cache_names_def act_file_def example_learner_fields example_builder_def
        example_data_def other_data_def)

lemma act_file_distinct:
  "act_file x_act \<noteq> act_file x_act_val" "act_file x_act \<noteq> act_file x_act_test"
  "act_file x_act_val \<noteq> act_file x_act_test" "act_file x_act_val \<noteq> act_file x_act"
  "act_file x_act_test \<noteq> act_file x_act" "act_file x_act_test \<noteq> act_file x_act_val"
  by (simp_all add: act_file_def)

lemma cached_learner_facts:
  "data_prop cached_learner = Inr example_data"
  "cache_names cached_learner example_data
     = [act_file x_act, act_file x_act_val, act_file x_act_test]"
  "cache_names cached_learner other_data
     = [act_file x_act, act_file x_act_val, act_file x_act_test]"
  "dom (disk cached_learner) = {act_file x_act, act_file x_act_val, act_file x_act_test}"
  "rows (the_array (disk cached_learner) (act_file x_act)) = [1, 2]"
  "runs cached_learner = []"
  by (auto simp: cached_learner_def data_prop_def example_learner_fields example_cache_names
        cached_disk_def the_array_def act_file_distinct)

lemma empty_primary_learner_facts:
  "data_prop empty_primary_learner = Inr example_data"
  "cache_names empty_primary_learner example_data
     = [act_file x_act, act_file x_act_val, act_file x_act_test]"
  "dom (disk empty_primary_learner)
     = {act_file x_act, act_file x_act_val, act_file x_act_test}"
  "rows (the_array (disk empty_primary_learner) (act_file x_act)) = []"
  "runs empty_primary_learner = []"
  by (auto simp: empty_primary_learner_def data_prop_def example_learner_fields
        example_cache_names empty_primary_disk_def the_array_def act_file_distinct)

text \<open>A complete cache is opened as it is.\<close>
theorem cache_reuse_witness:
  "data_prop cached_learner = Inr example_data
   \<and> cache_names cached_learner example_data ! 0 = act_file x_act
   \<and> act_file x_act \<in> dom (disk cached_learner)
   \<and> rows (the_array (disk cached_learner) (act_file x_act)) = [1, 2]
   \<and> set (cache_names cached_learner example_data) \<subseteq> dom (disk cached_learner)
   \<and> get_activations cached_learner False
       = Inr (cached_learner\<lparr>activations := cache_names cached_learner example_data\<rparr>)
   \<and> save_fc1 example_ext cached_learner
       = Inr (cached_learner
                \<lparr>activations := cache_names cached_learner example_data,
                 fc_data := Some (cached_dataset example_ext example_data
                                    (cache_names cached_learner example_data))\<rparr>)"
proof -
  note f = cached_learner_facts
  have n: "cache_names cached_learner example_data ! 0 = act_file x_act"
    by (simp add: f)
  have p: "cache_names cached_learner example_data ! 0 \<in> dom (disk cached_learner)
       \<and> rows (the_array (disk cached_learner)
                 (cache_names cached_learner example_data ! 0)) \<noteq> []"
    by (simp add: f)
  have a: "set (cache_names cached_learner example_data) \<subseteq> dom (disk cached_learner)"
    by (simp add: f)
  from cache_reuse [OF f(1), of example_ext] p
  have "if set (cache_names cached_learner example_data) \<subseteq> dom (disk cached_learner)
        then get_activations cached_learner False
               = Inr (cached_learner
                        \<lparr>activations := cache_names cached_learner example_data\<rparr>)
           \<and> save_fc1 example_ext cached_learner =
               Inr (cached_learner\<lparr>activations := cache_names cached_learner example_data,
                      fc_data := Some (cached_dataset example_ext example_data
                                         (cache_names cached_learner example_data))\<rparr>)
        else get_activations cached_learner False = Inl OpenError
           \<and> save_fc1 example_ext cached_learner = Inl OpenError"
    by blast
  with a have "get_activations cached_learner False
               = Inr (cached_learner
                        \<lparr>activations := cache_names cached_learner example_data\<rparr>)
           \<and> save_fc1 example_ext cached_learner =
               Inr (cached_learner\<lparr>activations := cache_names cached_learner example_data,
                      fc_data := Some (cached_dataset example_ext example_data
                                         (cache_names cached_learner example_data))\<rparr>)"
    by simp
  with f(1) n p a show ?thesis by (simp add: f)
qed

text \<open>
  Claim C7 as stated fails when the training array exists without rows: it is on disk
  and force is unset, and \<^verbatim>\<open>save_fc1\<close> still runs the backbone over the training and the
  validation loader.
\<close>
theorem cache_reuse_counterexample:
  "cache_names empty_primary_learner example_data ! 0 = act_file x_act
   \<and> act_file x_act \<in> dom (disk empty_primary_learner)
   \<and> runs empty_primary_learner = []
   \<and> save_fc1 example_ext empty_primary_learner
       = Inr ((run_backbone example_ext example_data
                 (empty_primary_learner
                    \<lparr>activations := cache_names empty_primary_learner example_data\<rparr>))
              \<lparr>fc_data := Some (cached_dataset example_ext example_data
                                  (cache_names empty_primary_learner example_data))\<rparr>)
   \<and> runs ((run_backbone example_ext example_data
                 (empty_primary_learner
                    \<lparr>activations := cache_names empty_primary_learner example_data\<rparr>))
              \<lparr>fc_data := Some (cached_dataset example_ext example_data
                                  (cache_names empty_primary_learner example_data))\<rparr>)
       = [([1, 2], act_file x_act), ([3], act_file x_act_val)]"
proof -
  note f = empty_primary_learner_facts
  have "save_fc1 example_ext empty_primary_learner
       = Inr ((run_backbone example_ext example_data
                 (empty_primary_learner
                    \<lparr>activations := cache_names empty_primary_learner example_data\<rparr>))
              \<lparr>fc_data := Some (cached_dataset example_ext example_data
                                  (cache_names empty_primary_learner example_data))\<rparr>)"
    by (rule save_fc1_refill) (simp_all add: f)
  moreover have "runs (run_backbone example_ext example_data
                 (empty_primary_learner
                    \<lparr>activations := cache_names empty_primary_learner example_data\<rparr>))
       = [([1, 2], act_file x_act), ([3], act_file x_act_val)]"
    by (simp add: run_backbone_runs passes_def f example_data_loaders)
  ultimately show ?thesis by (simp add: f)
qed

lemma init_until_caching_data_prop [simp]:
  "data_prop (init_until_caching data0 models0 metrics0 tn tr0 dk0) = Inr data0"
  by (simp add: data_prop_def)

lemma example_builder_lengths:
  "length (top_model example_builder) = 10" "length (model example_builder) = 18"
  by (simp_all add: example_builder_def)

text \<open>
  Construction with \<^verbatim>\<open>precompute=True\<close> on a disk without cache files: the ten layers of
  the truncated backbone with its adapter are frozen, the eight layers of the head are
  trainable.
\<close>
theorem constructor_order_witness:
  "\<exists>s. ConvLearner_init example_ext example_data example_builder True None ''tmp''
          all_trainable empty_disk = Inr s
      \<and> precompute s = True
      \<and> built example_builder
      \<and> trainable s 0 = False \<and> trainable s 9 = False
      \<and> trainable s 10 = True \<and> trainable s 17 = True"
proof -
  let ?s1 = "init_until_caching example_data example_builder None ''tmp''
               all_trainable empty_disk"
  have "cache_names ?s1 example_data ! 0 \<notin> dom (disk ?s1)"
    by (simp add: empty_disk_def dom_def)
  then have "\<exists>s2. save_fc1 example_ext ?s1 = Inr s2"
    by (simp add: save_fc1_absent)
  then obtain s where i: "ConvLearner_init example_ext example_data example_builder True None
          ''tmp'' all_trainable empty_disk = Inr s"
    by (auto simp: ConvLearner_init_eq)
  from constructor_order [OF i] have p: "precompute s = True"
    and "built example_builder \<longrightarrow>
              (\<forall>i. trainable s i =
                 (if i < length (top_model example_builder) then False
                  else if i < length (model example_builder) then True
                  else all_trainable i))"
    by blast+
  with example_builder_built have "\<forall>i. trainable s i =
                 (if i < length (top_model example_builder) then False
                  else if i < length (model example_builder) then True
                  else all_trainable i)"
    by blast
  then have "trainable s 0 = False \<and> trainable s 9 = False
      \<and> trainable s 10 = True \<and> trainable s 17 = True"
    by (simp add: example_builder_lengths)
  with i p example_builder_built show ?thesis by blast
qed

lemma set_data_eq:
  "set_data e s d = bind_err (save_fc1 e (s\<lparr>data_attr := d\<rparr>)) (\<lambda>s. Inr (freeze s))"
  by (simp add: set_data_def Learner_set_data_def)

lemma cache_names_data_attr [simp]:
  "cache_names (s\<lparr>data_attr := d0\<rparr>) d = cache_names s d"
  by (simp add: cache_names_def)

lemma data_prop_data_attr:
  "\<not> precompute s \<Longrightarrow> data_prop (s\<lparr>data_attr := d\<rparr>) = Inr d"
  by (simp add: data_prop_def)

lemma cache_names_distinct:
  "cache_names s d ! 0 \<noteq> cache_names s d ! 1" "cache_names s d ! 0 \<noteq> cache_names s d ! 2"
  "cache_names s d ! 0 \<noteq> cache_names s d ! Suc 0"
  by (simp_all add: cache_names_def)

lemma run_backbone_disk_primary:
  assumes "activations s ! 0 \<noteq> activations s ! 1" and "activations s ! 0 \<noteq> activations s ! 2"
  shows "disk (run_backbone e d s) (activations s ! 0) =
           Some (predict_to_bcolz e (top_model (models s)) (d_fix_dl d)
                   (the_array (disk s) (activations s ! 0)))"
  using assms
  by (simp add: run_backbone_def run_predict_def Let_def split: option.split)

text \<open>
  Claim C8, amended. For a learner whose precompute flag is unset, \<^verbatim>\<open>set_data\<close> stores the
  new dataset and runs \<^verbatim>\<open>save_fc1\<close>: when the training array for the key (backbone, extra
  cut, image size) of the new dataset is absent, or the three arrays exist and the training
  array has no rows, the truncated backbone runs over the loaders of the new dataset into
  the arrays; when the three arrays exist and the training array has rows, they are reused
  unchanged and the backbone does not run; when the training array exists and the
  validation or test array is missing, \<^verbatim>\<open>set_data\<close> raises and nothing is recomputed. Whenever
  it returns, the cached dataset is rebuilt around the arrays and the learner is frozen to
  the last layer group: for a builder that \<^verbatim>\<open>ConvnetBuilder.__init__\<close> returned, the layers
  of the head are trainable and no layer before them.
\<close>
theorem set_data_caching:
  assumes "\<not> precompute s"
  shows
   "(cache_names s d ! 0 \<notin> dom (disk s) \<longrightarrow>
       (\<exists>s'. set_data e s d = Inr s'
           \<and> runs s' = runs s @ passes d (cache_names s d)
           \<and> disk s' (cache_names s d ! 0) =
               Some (predict_to_bcolz e (top_model (models s)) (d_fix_dl d)
                       \<lparr> width = b_nf (models s), rows = [] \<rparr>)
           \<and> activations s' = cache_names s d
           \<and> fc_data s' = Some (cached_dataset e d (cache_names s d))))
    \<and> (set (cache_names s d) \<subseteq> dom (disk s)
        \<and> rows (the_array (disk s) (cache_names s d ! 0)) = [] \<longrightarrow>
       (\<exists>s'. set_data e s d = Inr s'
           \<and> runs s' = runs s @ passes d (cache_names s d)
           \<and> disk s' (cache_names s d ! 0) =
               Some (predict_to_bcolz e (top_model (models s)) (d_fix_dl d)
                       (the_array (disk s) (cache_names s d ! 0)))
           \<and> activations s' = cache_names s d
           \<and> fc_data s' = Some (cached_dataset e d (cache_names s d))))
    \<and> (set (cache_names s d) \<subseteq> dom (disk s)
        \<and> rows (the_array (disk s) (cache_names s d ! 0)) \<noteq> [] \<longrightarrow>
       (\<exists>s'. set_data e s d = Inr s'
           \<and> runs s' = runs s \<and> disk s' = disk s
           \<and> activations s' = cache_names s d
           \<and> fc_data s' = Some (cached_dataset e d (cache_names s d))))
    \<and> (cache_names s d ! 0 \<in> dom (disk s) \<and> \<not> set (cache_names s d) \<subseteq> dom (disk s) \<longrightarrow>
         set_data e s d = Inl OpenError)
    \<and> (\<forall>s'. set_data e s d = Inr s' \<longrightarrow>
          data_attr s' = d \<and> precompute s' = precompute s \<and> models s' = models s
          \<and> (built (models s) \<longrightarrow>
               (\<forall>i. trainable s' i =
                  (if i < length (top_model (models s)) then False
                   else if i < length (model (models s)) then True
                   else trainable s i))))"
proof (intro conjI impI allI)
  let ?s0 = "s\<lparr>data_attr := d\<rparr>"
  let ?names = "cache_names s d"
  have dp: "data_prop ?s0 = Inr d"
    using assms by (rule data_prop_data_attr)
  {
    assume a: "?names ! 0 \<notin> dom (disk s)"
    let ?t = "?s0\<lparr>activations := ?names,
                  disk := fold (create_empty_bcolz (b_nf (models s))) ?names (disk s)\<rparr>"
    from a have "save_fc1 e ?s0 =
        Inr ((run_backbone e d ?t)\<lparr>fc_data := Some (cached_dataset e d ?names)\<rparr>)"
      using save_fc1_absent [OF dp, of e] by simp
    moreover have "disk (run_backbone e d ?t) (activations ?t ! 0) =
           Some (predict_to_bcolz e (top_model (models ?t)) (d_fix_dl d)
                   (the_array (disk ?t) (activations ?t ! 0)))"
      by (rule run_backbone_disk_primary) (simp_all add: cache_names_distinct)
    moreover have "the_array (disk ?t) (?names ! 0) = \<lparr> width = b_nf (models s), rows = [] \<rparr>"
      by (simp add: fold_create_empty the_array_def cache_names_nth)
    ultimately show "\<exists>s'. set_data e s d = Inr s'
           \<and> runs s' = runs s @ passes d ?names
           \<and> disk s' (?names ! 0) =
               Some (predict_to_bcolz e (top_model (models s)) (d_fix_dl d)
                       \<lparr> width = b_nf (models s), rows = [] \<rparr>)
           \<and> activations s' = ?names
           \<and> fc_data s' = Some (cached_dataset e d ?names)"
      by (simp add: set_data_eq run_backbone_runs)
  }
  {
    assume a: "set ?names \<subseteq> dom (disk s)
        \<and> rows (the_array (disk s) (?names ! 0)) = []"
    let ?t = "?s0\<lparr>activations := ?names\<rparr>"
    from a have "save_fc1 e ?s0 =
        Inr ((run_backbone e d ?t)\<lparr>fc_data := Some (cached_dataset e d ?names)\<rparr>)"
      using save_fc1_refill [OF dp, of e] by simp
    moreover have "disk (run_backbone e d ?t) (activations ?t ! 0) =
           Some (predict_to_bcolz e (top_model (models ?t)) (d_fix_dl d)
                   (the_array (disk ?t) (activations ?t ! 0)))"
      by (rule run_backbone_disk_primary) (simp_all add: cache_names_distinct)
    ultimately show "\<exists>s'. set_data e s d = Inr s'
           \<and> runs s' = runs s @ passes d ?names
           \<and> disk s' (?names ! 0) =
               Some (predict_to_bcolz e (top_model (models s)) (d_fix_dl d)
                       (the_array (disk s) (?names ! 0)))
           \<and> activations s' = ?names
           \<and> fc_data s' = Some (cached_dataset e d ?names)"
      by (simp add: set_data_eq run_backbone_runs)
  }
  {
    assume a: "set ?names \<subseteq> dom (disk s)
        \<and> rows (the_array (disk s) (?names ! 0)) \<noteq> []"
    then have "save_fc1 e ?s0 =
        Inr (?s0\<lparr>activations := ?names, fc_data := Some (cached_dataset e d ?names)\<rparr>)"
      using save_fc1_reuse [OF dp, of e] by simp
    then show "\<exists>s'. set_data e s d = Inr s'
           \<and> runs s' = runs s \<and> disk s' = disk s
           \<and> activations s' = ?names
           \<and> fc_data s' = Some (cached_dataset e d ?names)"
      by (simp add: set_data_eq)
  }
  {
    assume a: "?names ! 0 \<in> dom (disk s) \<and> \<not> set ?names \<subseteq> dom (disk s)"
    then have "save_fc1 e ?s0 = Inl OpenError"
      using save_fc1_open_error [OF dp, of e] by simp
    then show "set_data e s d = Inl OpenError"
      by (simp add: set_data_eq)
  }
  fix s'
  assume r: "set_data e s d = Inr s'"
  then obtain s2 where s2: "save_fc1 e ?s0 = Inr s2" and s': "s' = freeze s2"
    by (auto simp: set_data_eq bind_err_eq_Inr)
  note f = save_fc1_fields [OF s2]
  from s' f show "data_attr s' = d" "precompute s' = precompute s" "models s' = models s"
    by simp_all
  assume "built (models s)"
  with f assms have "built (models s2)" and "\<not> precompute s2" by simp_all
  from freeze_trainable_full [OF this] s' f
  show "\<And>i. trainable s' i =
                  (if i < length (top_model (models s)) then False
                   else if i < length (model (models s)) then True
                   else trainable s i)"
    by simp
qed

lemma example_learner_cache_names:
  "cache_names example_learner other_data
     = [act_file x_act, act_file x_act_val, act_file x_act_test]"
  by (simp add: cache_names_def act_file_def example_learner_fields example_builder_def
        example_data_def other_data_def)

lemma example_learner_disk: "disk example_learner = Map.empty"
  by (simp add: example_learner_def Learner_init_def)

lemma example_builder_fields:
  "b_nf example_builder = 1024"
  "top_model example_builder =
     [BackboneLayer 0, BackboneLayer 1, BackboneLayer 2, BackboneLayer 3,
      BackboneLayer 4, BackboneLayer 5, BackboneLayer 6, BackboneLayer 7,
      AdaptiveConcatPool2d, Flatten]"
  by (simp_all add: example_builder_def)

text \<open>A new dataset on a disk without cache files: its loaders are run, the head stays trainable.\<close>
theorem set_data_caching_witness:
  "\<not> precompute example_learner
   \<and> cache_names example_learner other_data ! 0 = act_file x_act
   \<and> act_file x_act \<notin> dom (disk example_learner)
   \<and> built (models example_learner)
   \<and> (\<exists>s'. set_data example_ext example_learner other_data = Inr s'
          \<and> data_attr s' = other_data
          \<and> runs s' = [([4, 5, 6], act_file x_act), ([7], act_file x_act_val)]
          \<and> disk s' (act_file x_act) = Some \<lparr> width = 1024, rows = [4, 5, 6] \<rparr>
          \<and> trainable s' 0 = False \<and> trainable s' 9 = False \<and> trainable s' 10 = True)"
proof -
  note f = example_learner_fields
  have np: "\<not> precompute example_learner" by (simp add: f)
  have n: "cache_names example_learner other_data ! 0 = act_file x_act"
    by (simp add: example_learner_cache_names)
  have a: "act_file x_act \<notin> dom (disk example_learner)"
    by (simp add: example_learner_disk)
  have b: "built (models example_learner)"
    by (simp add: f example_builder_built)
  note t = set_data_caching [OF np, of other_data example_ext]
  have pre: "cache_names example_learner other_data ! 0 \<notin> dom (disk example_learner)"
    using n a by simp
  from t [THEN conjunct1, THEN mp, OF pre]
  obtain s' where r: "set_data example_ext example_learner other_data = Inr s'"
    and ru: "runs s' = runs example_learner
                        @ passes other_data (cache_names example_learner other_data)"
    and dk: "disk s' (cache_names example_learner other_data ! 0) =
               Some (predict_to_bcolz example_ext (top_model (models example_learner))
                       (d_fix_dl other_data)
                       \<lparr> width = b_nf (models example_learner), rows = [] \<rparr>)"
    by (elim exE conjE)
  from t [THEN conjunct2, THEN conjunct2, THEN conjunct2, THEN conjunct2, THEN spec,
          THEN mp, OF r]
  have da: "data_attr s' = other_data"
    and tr0: "built (models example_learner) \<longrightarrow>
               (\<forall>i. trainable s' i =
                  (if i < length (top_model (models example_learner)) then False
                   else if i < length (model (models example_learner)) then True
                   else trainable example_learner i))"
    by simp_all
  from tr0 b have tr: "\<forall>i. trainable s' i =
                  (if i < length (top_model (models example_learner)) then False
                   else if i < length (model (models example_learner)) then True
                   else trainable example_learner i)"
    by (rule mp)
  from ru have ru': "runs s' = [([4, 5, 6], act_file x_act), ([7], act_file x_act_val)]"
    by (simp add: f passes_def example_learner_cache_names example_data_loaders)
  from dk have dk': "disk s' (act_file x_act) = Some \<lparr> width = 1024, rows = [4, 5, 6] \<rparr>"
    by (simp add: n f example_builder_fields example_data_loaders example_ext_def)
  from tr have tr': "trainable s' 0 = False \<and> trainable s' 9 = False \<and> trainable s' 10 = True"
    by (simp add: f example_builder_lengths)
  from r da ru' dk' tr' have "\<exists>s'. set_data example_ext example_learner other_data = Inr s'
          \<and> data_attr s' = other_data
          \<and> runs s' = [([4, 5, 6], act_file x_act), ([7], act_file x_act_val)]
          \<and> disk s' (act_file x_act) = Some \<lparr> width = 1024, rows = [4, 5, 6] \<rparr>
          \<and> trainable s' 0 = False \<and> trainable s' 9 = False \<and> trainable s' 10 = True"
    by (intro exI [of _ s'] conjI) simp_all
  with np n a b show ?thesis by simp
qed

text \<open>
  Claim C8 as stated fails when a cache of the same key exists: after \<^verbatim>\<open>set_data\<close> with
  another dataset of the same image size the backbone has not run and the training array
  still holds the rows of the old dataset.
\<close>
theorem set_data_caching_counterexample:
  "\<not> precompute cached_learner
   \<and> d_fix_dl other_data = [4, 5, 6]
   \<and> set_data example_ext cached_learner other_data
       = Inr (freeze (cached_learner
                \<lparr>data_attr := other_data,
                 activations := cache_names cached_learner other_data,
                 fc_data := Some (cached_dataset example_ext other_data
                                    (cache_names cached_learner other_data))\<rparr>))
   \<and> runs (freeze (cached_learner
                \<lparr>data_attr := other_data,
                 activations := cache_names cached_learner other_data,
                 fc_data := Some (cached_dataset example_ext other_data
                                    (cache_names cached_learner other_data))\<rparr>)) = []
   \<and> disk (freeze (cached_learner
                \<lparr>data_attr := other_data,
                 activations := cache_names cached_learner other_data,
                 fc_data := Some (cached_dataset example_ext other_data
                                    (cache_names cached_learner other_data))\<rparr>))
       = disk cached_learner
   \<and> rows (the_array (disk cached_learner) (act_file x_act)) = [1, 2]"
proof -
  note f = cached_learner_facts
  have np: "\<not> precompute cached_learner"
    by (simp add: cached_learner_def example_learner_fields)
  let ?s0 = "cached_learner\<lparr>data_attr := other_data\<rparr>"
  have dp: "data_prop ?s0 = Inr other_data"
    using np by (rule data_prop_data_attr)
  have "save_fc1 example_ext ?s0 =
           Inr (?s0\<lparr>activations := cache_names ?s0 other_data,
                  fc_data := Some (cached_dataset example_ext other_data
                                     (cache_names ?s0 other_data))\<rparr>)"
    using dp by (rule save_fc1_reuse) (simp_all add: f)
  then have "set_data example_ext cached_learner other_data
       = Inr (freeze (cached_learner
                \<lparr>data_attr := other_data,
                 activations := cache_names cached_learner other_data,
                 fc_data := Some (cached_dataset example_ext other_data
                                    (cache_names cached_learner other_data))\<rparr>))"
    by (simp add: set_data_eq)
  with np show ?thesis
    by (simp add: f example_data_loaders)
qed

end
